theory Spec2Isabelle
  imports Main
begin

section \<open>The daemon controller of ipfsd-ctl (src/ipfsd-daemon.js)\<close>

text \<open>
  The controller is a JavaScript class whose methods are asynchronous. The embedding keeps
  the object's fields in a record, writes every piece of code that runs between two
  suspension points as a function on the state, and delivers the asynchronous events
  (output chunks, process exit, timers, completed I/O) one at a time, as the event loop
  does. Exceptions are values; everything the code does to the outside world (spawning,
  signalling, deleting, logging a warning) is appended to a trace.

  Text is modelled over 8-bit characters.
\<close>

subsection \<open>Text helpers and the three patterns of the ready handler\<close>

text \<open>\<^verbatim>\<open>String.prototype.trim\<close> removes white space and line terminators at both ends.\<close>

definition js_space :: "char \<Rightarrow> bool" where
  "js_space c = (c = CHR '' '' \<or> c = CHR 0x09 \<or> c = CHR 0x0A \<or> c = CHR 0x0B \<or>
     c = CHR 0x0C \<or> c = CHR 0x0D \<or> c = CHR 0xA0)"

definition trim :: "string \<Rightarrow> string" where
  "trim s = rev (dropWhile js_space (rev (dropWhile js_space s)))"

text \<open>The dot of a regular expression matches everything but a line terminator.\<close>

definition line_terminator :: "char \<Rightarrow> bool" where
  "line_terminator c = (c = CHR 0x0A \<or> c = CHR 0x0D)"

fun starts_with :: "string \<Rightarrow> string \<Rightarrow> bool" where
  "starts_with [] s = True"
| "starts_with (p # ps) [] = False"
| "starts_with (p # ps) (c # cs) = (p = c \<and> starts_with ps cs)"

fun includes_text :: "string \<Rightarrow> string \<Rightarrow> bool" where
  "includes_text p [] = starts_with p []"
| "includes_text p (c # cs) = (starts_with p (c # cs) \<or> includes_text p cs)"

text \<open>
  \<^verbatim>\<open>listening on:? (.*)\<close> anchored at the head of the text: the optional colon is
  tried first, and the group takes the rest of the line.
\<close>

definition listening_on :: "string \<Rightarrow> string option" where
  "listening_on s =
     (if starts_with ''listening on: '' s
      then Some (takeWhile (\<lambda>c. \<not> line_terminator c) (drop 14 s))
      else if starts_with ''listening on '' s
      then Some (takeWhile (\<lambda>c. \<not> line_terminator c) (drop 13 s))
      else None)"

text \<open>
  \<^verbatim>\<open>.*listening on:? (.*)\<close> anchored at the head of the text. The star is greedy: the
  longest run of characters is tried first and given back one character at a time.
\<close>

fun dots_listening_on :: "string \<Rightarrow> string option" where
  "dots_listening_on [] = listening_on []"
| "dots_listening_on (c # cs) =
     (if line_terminator c then listening_on (c # cs)
      else case dots_listening_on cs of
             Some g \<Rightarrow> Some g
           | None \<Rightarrow> listening_on (c # cs))"

text \<open>
  \<^verbatim>\<open>s.match(/HEAD.*listening on:? (.*)/)\<close>, group 1 of the leftmost match, for a
  literal \<open>HEAD\<close>; \<open>None\<close> is JavaScript's \<^verbatim>\<open>null\<close>.
\<close>

fun address_match :: "string \<Rightarrow> string \<Rightarrow> string option" where
  "address_match h [] = None"
| "address_match h (c # cs) =
     (if starts_with h (c # cs)
      then (case dots_listening_on (drop (length h) (c # cs)) of
              Some g \<Rightarrow> Some g
            | None \<Rightarrow> address_match h cs)
      else address_match h cs)"

definition apiMatch :: "string \<Rightarrow> string option" where
  "apiMatch output = address_match ''API '' (trim output)"

definition gwMatch :: "string \<Rightarrow> string option" where
  "gwMatch output = address_match ''Gateway '' (trim output)"

definition ready_match :: "string \<Rightarrow> bool" where
  "ready_match output =
     (includes_text ''daemon is running'' output \<or> includes_text ''Daemon is ready'' output)"

text \<open>JavaScript's truthiness of a value that is a string, \<^verbatim>\<open>null\<close> or \<^verbatim>\<open>undefined\<close>.\<close>

definition truthy :: "string option \<Rightarrow> bool" where
  "truthy v = (case v of None \<Rightarrow> False | Some s \<Rightarrow> s \<noteq> [])"

subsection \<open>Values of the program\<close>

text \<open>
  What a finished child process leaves behind (execa's result object), and the error
  execa rejects with: the same captured channels and a failure description.
\<close>

record child_result =
  stdout :: string
  stderr :: string

record child_error = child_result +
  message :: string

datatype js_error =
    Error string
  | ChildError child_error
  | TypeError string
  | SyntaxError string
  | TimeoutError
  | ForeignError string

text \<open>
  \<open>Error\<close> is \<^verbatim>\<open>new Error(message)\<close> of the controller itself, \<open>ChildError\<close> a rejected
  execa call, \<open>TimeoutError\<close> the rejection of p-wait-for, and \<open>ForeignError\<close> an error raised
  by a collaborator (multiaddr, fs-extra, the API client) under the name of the call.
\<close>

datatype ('e, 'a) promise = Fulfilled 'a | Rejected 'e

text \<open>\<^verbatim>\<open>p.catch(h)\<close> for a handler that returns: the value returned fulfils the new promise.\<close>

definition catch :: "('e \<Rightarrow> 'a) \<Rightarrow> ('e, 'a) promise \<Rightarrow> ('e, 'a) promise" where
  "catch h p = (case p of Fulfilled v \<Rightarrow> Fulfilled v | Rejected e \<Rightarrow> Fulfilled (h e))"

text \<open>
  A one-shot execa call settles with the result object or rejects with the error. The
  value awaited after \<^verbatim>\<open>.catch(translateError)\<close> is either of the two objects; both
  carry \<^verbatim>\<open>stdout\<close> and \<^verbatim>\<open>stderr\<close>.
\<close>

datatype execa_value = ResultObject child_result | ErrorObject child_error

definition execa :: "child_error + child_result \<Rightarrow> (child_error, execa_value) promise" where
  "execa r = (case r of Inl e \<Rightarrow> Rejected e | Inr v \<Rightarrow> Fulfilled (ResultObject v))"

definition stdout_of :: "execa_value \<Rightarrow> string" where
  "stdout_of v = (case v of ResultObject r \<Rightarrow> stdout r | ErrorObject e \<Rightarrow> stdout e)"

definition separator :: string where
  "separator = '' '' @ [CHR 0x0A, CHR 0x0A] @ '' ''"

definition translateError :: "child_error \<Rightarrow> child_error" where
  "translateError err =
     err\<lparr>message := stdout err @ separator @ stderr err @ separator @ message err
                     @ '' '' @ [CHR 0x0A, CHR 0x0A]\<rparr>"

datatype outcome = Resolves | Rejects js_error

datatype command = CmdInit | CmdDaemon | CmdConfig string | CmdConfigReplace

datatype signal = SIGTERM | SIGKILL

datatype effect =
    Spawn command
  | Kill signal
  | Cancel
  | SetTimeout nat
  | ConsoleError js_error
  | FsRemove string
  | FsWriteFile
  | FsUnlink
  | ApiId
  | ApiStop

text \<open>
  \<open>Spawn\<close> is a call of \<^verbatim>\<open>execa(this.exec, ...)\<close> with the subcommand it runs, \<open>Kill\<close> is
  \<^verbatim>\<open>subprocess.kill(signal)\<close>, \<open>Cancel\<close> is \<^verbatim>\<open>subprocess.cancel()\<close>, \<open>SetTimeout\<close> arms a timer
  of the given milliseconds, \<open>ApiId\<close> and \<open>ApiStop\<close> are the calls \<^verbatim>\<open>api.id()\<close> and
  \<^verbatim>\<open>api.stop()\<close>. Debug logging is not recorded.
\<close>

subsection \<open>The controller object\<close>

text \<open>The fields of \<^verbatim>\<open>ControllerOptions\<close> that the controller reads.\<close>

record controller_options =
  repo :: "string option"
  ipfsBin :: "string option"
  env_overrides :: "string \<rightharpoonup> string"
  opt_disposable :: bool
  type :: string
  forceKill :: "bool option"
  forceKillTimeout :: nat

datatype multiaddr = Multiaddr string

record api_client =
  address :: string
  apiHost :: "string option"
  apiPort :: "nat option"
  gatewayHost :: "string option"
  gatewayPort :: "nat option"
  peerId :: "string option"

record child_process =
  proc_pid :: nat

record daemon =
  opts :: controller_options
  path :: string
  exec :: "string option"
  env :: "string \<rightharpoonup> string"
  disposable :: bool
  subprocess :: "child_process option"
  initialized :: bool
  started :: bool
  clean :: bool
  apiAddr :: "multiaddr option"
  gatewayAddr :: "multiaddr option"
  api :: "api_client option"
  subprocess_stop :: bool

text \<open>
  \<open>subprocess_stop\<close> tells whether the field holds a promise (it is \<^verbatim>\<open>undefined\<close>
  otherwise); the promise settles when the child process has ended.

  The collaborators that are not part of this file are parameters: the two path helpers
  of \<^verbatim>\<open>./utils\<close>, and the multiaddr library, of which the controller uses the constructor
  (\<open>multiaddr_accepts\<close>: it returns rather than throws) and \<^verbatim>\<open>nodeAddress()\<close> (\<open>None\<close>: it
  throws).
\<close>

record extern =
  tmpDir :: "string \<Rightarrow> string"
  defaultRepo :: "string \<Rightarrow> string"
  multiaddr_accepts :: "string \<Rightarrow> bool"
  nodeAddress :: "string \<Rightarrow> (string \<times> nat) option"

text \<open>\<^verbatim>\<open>opts.ipfsHttpModule(addr)\<close>: a new client handle for the address, not yet annotated.\<close>

definition ipfsHttpModule :: "string \<Rightarrow> api_client" where
  "ipfsHttpModule addr =
     \<lparr>address = addr, apiHost = None, apiPort = None, gatewayHost = None,
      gatewayPort = None, peerId = None\<rparr>"

definition Daemon :: "extern \<Rightarrow> controller_options \<Rightarrow> daemon" where
  "Daemon lib options =
     (let p = (case repo options of
                 Some r \<Rightarrow> if r \<noteq> [] then r
                           else if opt_disposable options then tmpDir lib (type options)
                           else defaultRepo lib (type options)
               | None \<Rightarrow> if opt_disposable options then tmpDir lib (type options)
                         else defaultRepo lib (type options))
      in \<lparr>opts = options, path = p, exec = ipfsBin options,
          env = [''IPFS_PATH'' \<mapsto> p] ++ env_overrides options,
          disposable = opt_disposable options, subprocess = None, initialized = False,
          started = False, clean = True, apiAddr = None, gatewayAddr = None, api = None,
          subprocess_stop = False\<rparr>)"

text \<open>
  A method that throws part-way keeps the assignments it has made, so both setters
  return the object together with the exception, if any.
\<close>

definition setApi :: "extern \<Rightarrow> string \<Rightarrow> daemon \<Rightarrow> daemon \<times> js_error option" where
  "setApi lib addr d =
     (if \<not> multiaddr_accepts lib addr then (d, Some (ForeignError ''multiaddr''))
      else
        let d1 = d\<lparr>apiAddr := Some (Multiaddr addr), api := Some (ipfsHttpModule addr)\<rparr>
        in case nodeAddress lib addr of
             None \<Rightarrow> (d1, Some (ForeignError ''nodeAddress''))
           | Some (host, port) \<Rightarrow>
               (d1\<lparr>api := Some ((ipfsHttpModule addr)\<lparr>apiHost := Some host,
                                                          apiPort := Some port\<rparr>)\<rparr>, None))"

definition setGateway :: "extern \<Rightarrow> string \<Rightarrow> daemon \<Rightarrow> daemon \<times> js_error option" where
  "setGateway lib addr d =
     (if \<not> multiaddr_accepts lib addr then (d, Some (ForeignError ''multiaddr''))
      else
        let d1 = d\<lparr>gatewayAddr := Some (Multiaddr addr)\<rparr>
        in case nodeAddress lib addr of
             None \<Rightarrow> (d1, Some (ForeignError ''nodeAddress''))
           | Some (host, port) \<Rightarrow>
               (case api d1 of
                  None \<Rightarrow> (d1, Some (TypeError ''Cannot set property gatewayHost of null''))
                | Some a \<Rightarrow>
                    (d1\<lparr>api := Some (a\<lparr>gatewayHost := Some host,
                                          gatewayPort := Some port\<rparr>)\<rparr>, None)))"

text \<open>
  \<^verbatim>\<open>pid()\<close> throws at once or returns a promise already fulfilled with the identifier.
\<close>

definition pid :: "daemon \<Rightarrow> js_error + nat" where
  "pid d = (case subprocess d of
              Some p \<Rightarrow> Inr (proc_pid p)
            | None \<Rightarrow> Inl (Error ''Daemon process is not running.''))"

subsection \<open>init\<close>

text \<open>
  What the outside world answers while \<^verbatim>\<open>init\<close> runs: \<^verbatim>\<open>repoExists\<close>, the three one-shot
  child processes, whether \<^verbatim>\<open>JSON.parse\<close> accepts a text, and whether the two file
  operations succeed. The arguments built by \<^verbatim>\<open>buildInitArgs\<close> are not modelled.
\<close>

record init_world =
  repo_exists :: bool
  init_run :: "child_error + child_result"
  config_run :: "child_error + child_result"
  json_parses :: "string \<Rightarrow> bool"
  writeFile_ok :: bool
  replace_run :: "child_error + child_result"
  unlink_ok :: bool

definition getConfig :: "init_world \<Rightarrow> string \<Rightarrow> effect list \<times> (js_error + string)" where
  "getConfig w key =
     (case catch (\<lambda>e. ErrorObject (translateError e)) (execa (config_run w)) of
        Rejected e \<Rightarrow> ([Spawn (CmdConfig key)], Inl (ChildError e))
      | Fulfilled v \<Rightarrow>
          if key = ''show''
          then (if json_parses w (stdout_of v)
                then ([Spawn (CmdConfig key)], Inr (stdout_of v))
                else ([Spawn (CmdConfig key)], Inl (SyntaxError (stdout_of v))))
          else ([Spawn (CmdConfig key)], Inr (trim (stdout_of v))))"

definition replaceConfig :: "init_world \<Rightarrow> effect list \<times> js_error option" where
  "replaceConfig w =
     (if \<not> writeFile_ok w then ([FsWriteFile], Some (ForeignError ''writeFile''))
      else case catch (\<lambda>e. ErrorObject (translateError e)) (execa (replace_run w)) of
             Rejected e \<Rightarrow> ([FsWriteFile, Spawn CmdConfigReplace], Some (ChildError e))
           | Fulfilled v \<Rightarrow>
               if \<not> unlink_ok w
               then ([FsWriteFile, Spawn CmdConfigReplace, FsUnlink], Some (ForeignError ''unlink''))
               else ([FsWriteFile, Spawn CmdConfigReplace, FsUnlink], None))"

definition init :: "daemon \<Rightarrow> init_world \<Rightarrow> daemon \<times> effect list \<times> outcome" where
  "init d w =
     (let d1 = d\<lparr>initialized := repo_exists w\<rparr> in
      if initialized d1 then (d1\<lparr>clean := False\<rparr>, [], Resolves)
      else
        case catch (\<lambda>e. ErrorObject (translateError e)) (execa (init_run w)) of
          Rejected e \<Rightarrow> (d1, [Spawn CmdInit], Rejects (ChildError e))
        | Fulfilled v \<Rightarrow>
            if type (opts d1) = ''go''
            then (case getConfig w ''show'' of
                    (e1, Inl err) \<Rightarrow> (d1, Spawn CmdInit # e1, Rejects err)
                  | (e1, Inr config) \<Rightarrow>
                      (case replaceConfig w of
                         (e2, Some err) \<Rightarrow> (d1, Spawn CmdInit # e1 @ e2, Rejects err)
                       | (e2, None) \<Rightarrow>
                           (d1\<lparr>clean := False, initialized := True\<rparr>,
                            Spawn CmdInit # e1 @ e2, Resolves)))
            else (d1\<lparr>clean := False, initialized := True\<rparr>, [Spawn CmdInit], Resolves))"

subsection \<open>The running system\<close>

text \<open>
  Where an asynchronous method is suspended. \<^verbatim>\<open>start\<close> awaits the promise \<^verbatim>\<open>ready\<close> and then
  \<^verbatim>\<open>api.id()\<close>; \<^verbatim>\<open>stop\<close> awaits \<^verbatim>\<open>subprocess_stop\<close>, or polls \<^verbatim>\<open>!this.started\<close>, then polls
  \<^verbatim>\<open>this.clean\<close>, or awaits \<^verbatim>\<open>api.stop()\<close>. The numbers are the call's timeout and, for a
  poll, the milliseconds waited so far.
\<close>

datatype suspension =
    Idle
  | StartAwaitReady
  | StartAwaitId
  | StopAwaitExit nat
  | StopPollStarted nat nat
  | StopPollClean nat nat
  | StopAwaitApi

text \<open>
  The controller together with what lives in closures and in the runtime: the variable
  \<^verbatim>\<open>output\<close> of \<^verbatim>\<open>start\<close>, whether \<^verbatim>\<open>readyHandler\<close> is registered on the child's output,
  whether the child is alive, the armed force-kill timer (\<^verbatim>\<open>killTimeout\<close> of \<^verbatim>\<open>stop\<close>), the
  number of directory removals in flight that the exit observer has started, the suspended
  method and the outcome of the last method that settled, the trace of effects, and an
  exception that escaped an event listener (which ends the program).
  The model follows one child process at a time, and one timer.
\<close>

record sys =
  ctl :: daemon
  output_text :: string
  readyHandler_on :: bool
  alive :: bool
  killTimeout :: "nat option"
  removals :: nat
  pending :: suspension
  result :: "outcome option"
  trace :: "effect list"
  uncaught :: "js_error option"

definition boot :: "extern \<Rightarrow> controller_options \<Rightarrow> sys" where
  "boot lib options =
     \<lparr>ctl = Daemon lib options, output_text = [], readyHandler_on = False, alive = False,
      killTimeout = None, removals = 0, pending = Idle, result = None, trace = [],
      uncaught = None\<rparr>"

subsection \<open>cleanup\<close>

text \<open>
  \<^verbatim>\<open>cleanup\<close> up to its suspension on \<^verbatim>\<open>fs.remove\<close>, and its remainder once the removal has
  succeeded. A removal that fails rejects the method and leaves \<^verbatim>\<open>clean\<close> as it is.
\<close>

definition cleanup_begin :: "daemon \<Rightarrow> effect list" where
  "cleanup_begin d = (if \<not> clean d then [FsRemove (path d)] else [])"

definition cleanup_end :: "daemon \<Rightarrow> daemon" where
  "cleanup_end d = d\<lparr>clean := True\<rparr>"

definition cleanup :: "daemon \<Rightarrow> bool \<Rightarrow> daemon \<times> effect list \<times> outcome" where
  "cleanup d remove_ok =
     (if \<not> clean d
      then (if remove_ok then (cleanup_end d, cleanup_begin d, Resolves)
            else (d, cleanup_begin d, Rejects (ForeignError ''remove'')))
      else (d, cleanup_begin d, Resolves))"

subsection \<open>start\<close>

text \<open>
  The listener \<^verbatim>\<open>readyHandler\<close> on one chunk, for the controller and the accumulated
  \<^verbatim>\<open>output\<close>. It returns (telling whether the ready pattern matched, in which case it has
  unregistered itself and resolved \<^verbatim>\<open>ready\<close>) or throws.
\<close>

datatype handler_end = Returned bool | Threw js_error

definition readyHandler ::
    "extern \<Rightarrow> string \<Rightarrow> daemon \<times> string \<Rightarrow> daemon \<times> string \<times> handler_end" where
  "readyHandler lib chunk st =
     (let d = fst st; out = snd st @ chunk in
      case (case apiMatch out of Some a \<Rightarrow> setApi lib a d | None \<Rightarrow> (d, None)) of
        (d1, Some e) \<Rightarrow> (d1, out, Threw e)
      | (d1, None) \<Rightarrow>
          (case (case gwMatch out of Some g \<Rightarrow> setGateway lib g d1 | None \<Rightarrow> (d1, None)) of
             (d2, Some e) \<Rightarrow> (d2, out, Threw e)
           | (d2, None) \<Rightarrow>
               if ready_match out then (d2\<lparr>started := True\<rparr>, out, Returned True)
               else (d2, out, Returned False)))"

text \<open>
  \<^verbatim>\<open>start\<close> after \<^verbatim>\<open>await ready\<close> (and, on the attach path, after \<^verbatim>\<open>_setApi\<close>): the
  assignment \<^verbatim>\<open>this.started = true\<close> and the call \<^verbatim>\<open>this.api.id()\<close>.
\<close>

definition start_resume :: "sys \<Rightarrow> sys" where
  "start_resume s =
     (let d = (ctl s)\<lparr>started := True\<rparr> in
      case api d of
        None \<Rightarrow> s\<lparr>ctl := d, pending := Idle,
                  result := Some (Rejects (TypeError ''Cannot read property id of null''))\<rparr>
      | Some a \<Rightarrow> s\<lparr>ctl := d, pending := StartAwaitId, trace := trace s @ [ApiId]\<rparr>)"

text \<open>
  \<^verbatim>\<open>start()\<close> up to its first suspension. The arguments are what \<^verbatim>\<open>checkForRunningApi\<close>
  answers and the process identifier the operating system gives a spawned child. The
  arguments built by \<^verbatim>\<open>buildStartArgs\<close> are not modelled.
\<close>

definition start :: "extern \<Rightarrow> string option \<Rightarrow> nat \<Rightarrow> sys \<Rightarrow> sys" where
  "start lib running new_pid s =
     (if truthy running
      then (case setApi lib (the running) (ctl s) of
              (d1, Some e) \<Rightarrow> s\<lparr>ctl := d1, result := Some (Rejects e)\<rparr>
            | (d1, None) \<Rightarrow> start_resume (s\<lparr>ctl := d1, result := None\<rparr>))
      else if \<not> truthy (exec (ctl s))
      then s\<lparr>result := Some (Rejects (Error ''No executable specified''))\<rparr>
      else s\<lparr>ctl := (ctl s)\<lparr>subprocess := Some \<lparr>proc_pid = new_pid\<rparr>,
                               subprocess_stop := True\<rparr>,
              output_text := [], readyHandler_on := True, alive := True,
              pending := StartAwaitReady, result := None,
              trace := trace s @ [Spawn CmdDaemon]\<rparr>)"

text \<open>A chunk of the child's standard output: \<^verbatim>\<open>readyHandler\<close> runs if it is registered.\<close>

definition on_stdout :: "extern \<Rightarrow> string \<Rightarrow> sys \<Rightarrow> sys" where
  "on_stdout lib chunk s =
     (if \<not> readyHandler_on s then s
      else case readyHandler lib chunk (ctl s, output_text s) of
             (d, out, Threw e) \<Rightarrow> s\<lparr>ctl := d, output_text := out, uncaught := Some e\<rparr>
           | (d, out, Returned False) \<Rightarrow> s\<lparr>ctl := d, output_text := out\<rparr>
           | (d, out, Returned True) \<Rightarrow>
               (if pending s = StartAwaitReady
                then start_resume (s\<lparr>ctl := d, output_text := out, readyHandler_on := False\<rparr>)
                else s\<lparr>ctl := d, output_text := out, readyHandler_on := False\<rparr>))"

text \<open>\<^verbatim>\<open>api.id()\<close> has settled: \<^verbatim>\<open>start\<close> stores the identity and resolves, or rejects.\<close>

definition on_id :: "js_error + string \<Rightarrow> sys \<Rightarrow> sys" where
  "on_id r s =
     (if pending s \<noteq> StartAwaitId then s
      else case r of
             Inl e \<Rightarrow> s\<lparr>pending := Idle, result := Some (Rejects e)\<rparr>
           | Inr i \<Rightarrow>
               (case api (ctl s) of
                  None \<Rightarrow> s\<lparr>pending := Idle,
                            result := Some (Rejects (TypeError ''Cannot set property peerId of null''))\<rparr>
                | Some a \<Rightarrow> s\<lparr>ctl := (ctl s)\<lparr>api := Some (a\<lparr>peerId := Some i\<rparr>)\<rparr>,
                              pending := Idle, result := Some Resolves\<rparr>))"

subsection \<open>stop\<close>

text \<open>
  The argument of \<^verbatim>\<open>stop\<close>. The method reads \<^verbatim>\<open>timeout\<close> only; the other two properties
  are what a caller may pass along.
\<close>

record stop_options =
  timeout :: "nat option"
  arg_forceKill :: "bool option"
  arg_forceKillTimeout :: "nat option"

definition timeout_of :: "stop_options \<Rightarrow> nat" where
  "timeout_of options =
     (case timeout options of None \<Rightarrow> 60000 | Some n \<Rightarrow> if n = 0 then 60000 else n)"

text \<open>Numbers in a template literal are written in decimal.\<close>

fun decimal :: "nat \<Rightarrow> string" where
  "decimal n =
     (if n < 10 then [''0123456789'' ! n]
      else decimal (n div 10) @ [''0123456789'' ! (n mod 10)])"

declare decimal.simps [simp del]

definition kill_warning :: "daemon \<Rightarrow> js_error" where
  "kill_warning d =
     Error (''Timeout stopping '' @ type (opts d) @ '' node after ''
            @ decimal (forceKillTimeout (opts d)) @ ''ms. Process ''
            @ (case subprocess d of Some p \<Rightarrow> decimal (proc_pid p) | None \<Rightarrow> [])
            @ '' will be force killed now.'')"

definition stop_settle :: "sys \<Rightarrow> sys" where
  "stop_settle s = s\<lparr>pending := Idle, result := Some Resolves\<rparr>"

text \<open>
  \<^verbatim>\<open>stop\<close> once the child's exit has been observed: \<^verbatim>\<open>clearTimeout(killTimeout)\<close>, then, for
  a disposable instance, the first check of \<^verbatim>\<open>waitFor(this.clean)\<close>.
\<close>

definition stop_exited :: "nat \<Rightarrow> sys \<Rightarrow> sys" where
  "stop_exited t s =
     (let s1 = s\<lparr>killTimeout := None\<rparr> in
      if disposable (ctl s1)
      then (if clean (ctl s1) then stop_settle s1 else s1\<lparr>pending := StopPollClean t 0\<rparr>)
      else stop_settle s1)"

text \<open>The continuation of \<^verbatim>\<open>await this.subprocess_stop\<close>.\<close>

definition stop_awaited :: "nat \<Rightarrow> sys \<Rightarrow> sys" where
  "stop_awaited t s = stop_exited t (s\<lparr>ctl := (ctl s)\<lparr>subprocess_stop := False\<rparr>\<rparr>)"

text \<open>\<^verbatim>\<open>stop(options)\<close> up to its first suspension.\<close>

definition stop :: "stop_options \<Rightarrow> sys \<Rightarrow> sys" where
  "stop options s =
     (let t = timeout_of options; d = ctl s in
      if \<not> started d then s\<lparr>result := Some Resolves\<rparr>
      else case subprocess d of
        Some p \<Rightarrow>
          (let s1 =
             (if disposable d then s\<lparr>result := None, trace := trace s @ [Kill SIGKILL]\<rparr>
              else if forceKill (opts d) \<noteq> Some False
              then s\<lparr>result := None, killTimeout := Some (forceKillTimeout (opts d)),
                     trace := trace s @ [SetTimeout (forceKillTimeout (opts d)), Cancel]\<rparr>
              else s\<lparr>result := None, trace := trace s @ [Cancel]\<rparr>)
           in if subprocess_stop d
              then (if alive s1 then s1\<lparr>pending := StopAwaitExit t\<rparr> else stop_awaited t s1)
              else s1\<lparr>pending := StopPollStarted t 0\<rparr>)
      | None \<Rightarrow>
          (case api d of
             None \<Rightarrow> s\<lparr>result := Some (Rejects (TypeError ''Cannot read property stop of null''))\<rparr>
           | Some a \<Rightarrow> s\<lparr>result := None, pending := StopAwaitApi,
                         trace := trace s @ [ApiStop]\<rparr>))"

text \<open>The callback of the force-kill timer, if the timer is still armed.\<close>

definition on_killTimeout :: "sys \<Rightarrow> sys" where
  "on_killTimeout s =
     (case killTimeout s of
        None \<Rightarrow> s
      | Some n \<Rightarrow> s\<lparr>killTimeout := None,
                    trace := trace s @ [ConsoleError (kill_warning (ctl s)), Kill SIGKILL]\<rparr>)"

text \<open>
  The child process ends. The \<^verbatim>\<open>exit\<close> observer runs; then the child's promise settles,
  which rejects \<^verbatim>\<open>ready\<close> with the translated error if the child failed (a no-op once
  \<^verbatim>\<open>ready\<close> is resolved), and settles \<^verbatim>\<open>subprocess_stop\<close>.
\<close>

definition exit_observer :: "sys \<Rightarrow> sys" where
  "exit_observer s =
     (let s1 = s\<lparr>ctl := (ctl s)\<lparr>started := False\<rparr>, readyHandler_on := False\<rparr> in
      if disposable (ctl s1)
      then s1\<lparr>trace := trace s1 @ cleanup_begin (ctl s1),
              removals := (if clean (ctl s1) then removals s1 else Suc (removals s1))\<rparr>
      else s1)"

definition on_exit :: "child_error option \<Rightarrow> sys \<Rightarrow> sys" where
  "on_exit failure s =
     (if \<not> alive s then s
      else
        let s1 = exit_observer (s\<lparr>alive := False\<rparr>);
            s2 = (case failure of
                    None \<Rightarrow> s1
                  | Some err \<Rightarrow>
                      if pending s1 = StartAwaitReady
                      then s1\<lparr>pending := Idle,
                              result := Some (Rejects (ChildError (translateError err)))\<rparr>
                      else s1)
        in case pending s2 of
             StopAwaitExit t \<Rightarrow> stop_awaited t s2
           | _ \<Rightarrow> s2)"

text \<open>A removal started by the exit observer finishes; its failure is swallowed.\<close>

definition on_removed :: "bool \<Rightarrow> sys \<Rightarrow> sys" where
  "on_removed ok s =
     (if removals s = 0 then s
      else if ok then s\<lparr>ctl := cleanup_end (ctl s), removals := removals s - 1\<rparr>
      else s\<lparr>removals := removals s - 1\<rparr>)"

text \<open>
  One interval (100 ms) of p-wait-for passes. The wait rejects once its timeout has been
  reached, and otherwise checks its condition again.
\<close>

definition on_poll :: "sys \<Rightarrow> sys" where
  "on_poll s =
     (case pending s of
        StopPollStarted t waited \<Rightarrow>
          if t \<le> waited + 100 then s\<lparr>pending := Idle, result := Some (Rejects TimeoutError)\<rparr>
          else if \<not> started (ctl s) then stop_exited t s
          else s\<lparr>pending := StopPollStarted t (waited + 100)\<rparr>
      | StopPollClean t waited \<Rightarrow>
          if t \<le> waited + 100 then s\<lparr>pending := Idle, result := Some (Rejects TimeoutError)\<rparr>
          else if clean (ctl s) then stop_settle s
          else s\<lparr>pending := StopPollClean t (waited + 100)\<rparr>
      | _ \<Rightarrow> s)"

text \<open>\<^verbatim>\<open>api.stop()\<close> has settled (attached mode).\<close>

definition on_api_stop :: "js_error option \<Rightarrow> sys \<Rightarrow> sys" where
  "on_api_stop r s =
     (if pending s \<noteq> StopAwaitApi then s
      else case r of
             Some e \<Rightarrow> s\<lparr>pending := Idle, result := Some (Rejects e)\<rparr>
           | None \<Rightarrow> s\<lparr>ctl := (ctl s)\<lparr>started := False\<rparr>, pending := Idle,
                         result := Some Resolves\<rparr>)"

subsection \<open>Runs\<close>

text \<open>
  What can happen to a controller: a caller invokes a method (callers do not overlap
  lifecycle calls, so a call is taken only while no method is suspended), or the event
  loop delivers an event. \<^verbatim>\<open>init\<close> and \<^verbatim>\<open>cleanup\<close> run in one piece, with the answers of the
  outside world as arguments. Nothing happens after an exception has escaped a listener.
\<close>

datatype action =
    CallInit init_world
  | CallCleanup bool
  | CallStart "string option" nat
  | CallStop stop_options
  | Stdout string
  | Exit "child_error option"
  | KillTimerElapsed
  | Removed bool
  | PollTick
  | IdSettled "js_error + string"
  | ApiStopSettled "js_error option"

definition call_init :: "init_world \<Rightarrow> sys \<Rightarrow> sys" where
  "call_init w s =
     (case init (ctl s) w of
        (d, effects, r) \<Rightarrow> s\<lparr>ctl := d, trace := trace s @ effects, result := Some r\<rparr>)"

definition call_cleanup :: "bool \<Rightarrow> sys \<Rightarrow> sys" where
  "call_cleanup remove_ok s =
     (case cleanup (ctl s) remove_ok of
        (d, effects, r) \<Rightarrow> s\<lparr>ctl := d, trace := trace s @ effects, result := Some r\<rparr>)"

definition deliver :: "extern \<Rightarrow> sys \<Rightarrow> action \<Rightarrow> sys" where
  "deliver lib s a =
     (if uncaught s \<noteq> None then s
      else case a of
        CallInit w \<Rightarrow> if pending s = Idle then call_init w s else s
      | CallCleanup ok \<Rightarrow> if pending s = Idle then call_cleanup ok s else s
      | CallStart running new_pid \<Rightarrow> if pending s = Idle then start lib running new_pid s else s
      | CallStop options \<Rightarrow> if pending s = Idle then stop options s else s
      | Stdout chunk \<Rightarrow> on_stdout lib chunk s
      | Exit failure \<Rightarrow> on_exit failure s
      | KillTimerElapsed \<Rightarrow> on_killTimeout s
      | Removed ok \<Rightarrow> on_removed ok s
      | PollTick \<Rightarrow> on_poll s
      | IdSettled r \<Rightarrow> on_id r s
      | ApiStopSettled r \<Rightarrow> on_api_stop r s)"

definition run :: "extern \<Rightarrow> sys \<Rightarrow> action list \<Rightarrow> sys" where
  "run lib s as = foldl (deliver lib) s as"

text \<open>Kinds of actions: the calls of \<^verbatim>\<open>init\<close> and of \<^verbatim>\<open>start\<close>, and the calls of any method.\<close>

definition is_init :: "action \<Rightarrow> bool" where
  "is_init a = (case a of CallInit w \<Rightarrow> True | _ \<Rightarrow> False)"

definition is_start :: "action \<Rightarrow> bool" where
  "is_start a = (case a of CallStart running new_pid \<Rightarrow> True | _ \<Rightarrow> False)"

definition is_call :: "action \<Rightarrow> bool" where
  "is_call a = (case a of CallInit w \<Rightarrow> True | CallCleanup ok \<Rightarrow> True
                | CallStart running new_pid \<Rightarrow> True | CallStop options \<Rightarrow> True | _ \<Rightarrow> False)"

text \<open>
  A daemon that announces its API address no later than its readiness: when a chunk makes
  the ready pattern match the accumulated output while \<^verbatim>\<open>readyHandler\<close> listens, the API
  pattern matches that output too, or a client exists already. \<open>announced\<close> says so of every
  chunk of a run.
\<close>

definition api_known_at_ready :: "sys \<Rightarrow> action \<Rightarrow> bool" where
  "api_known_at_ready s a =
     (case a of
        Stdout chunk \<Rightarrow>
          (if readyHandler_on s \<and> ready_match (output_text s @ chunk)
           then api (ctl s) \<noteq> None \<or> apiMatch (output_text s @ chunk) \<noteq> None
           else True)
      | _ \<Rightarrow> True)"

fun announced :: "extern \<Rightarrow> sys \<Rightarrow> action list \<Rightarrow> bool" where
  "announced lib s [] = True"
| "announced lib s (a # as) = (api_known_at_ready s a \<and> announced lib (deliver lib s a) as)"



subsection \<open>Auxiliary predicates\<close>

text \<open>
  Relations between a state and a later one, and properties of a state, that the proofs
  below carry through a run: the process handle and the record of a spawned daemon are
  unchanged; the repository stays clean and no removal is added to the trace; the client
  exists whenever \<^verbatim>\<open>started\<close> holds; no timer is armed; a disposable instance has resolved
  only once it is clean.
\<close>

definition same_handle :: "sys \<Rightarrow> sys \<Rightarrow> bool" where
  "same_handle s s' =
     (subprocess (ctl s') = subprocess (ctl s) \<and>
      (Spawn CmdDaemon \<in> set (trace s')) = (Spawn CmdDaemon \<in> set (trace s)))"

definition stays_clean :: "sys \<Rightarrow> sys \<Rightarrow> bool" where
  "stays_clean s s' =
     (clean (ctl s') \<and> (\<forall>q. FsRemove q \<in> set (trace s') \<longrightarrow> FsRemove q \<in> set (trace s)))"

definition client_known :: "sys \<Rightarrow> bool" where
  "client_known s = (started (ctl s) \<longrightarrow> api (ctl s) \<noteq> None)"

definition no_new_timer :: "sys \<Rightarrow> sys \<Rightarrow> bool" where
  "no_new_timer s s' =
     ((\<forall>n. SetTimeout n \<in> set (trace s') \<longrightarrow> SetTimeout n \<in> set (trace s)) \<and>
      (killTimeout s = None \<longrightarrow> killTimeout s' = None))"

definition disposing :: "sys \<Rightarrow> bool" where
  "disposing s =
     (disposable (ctl s) \<and> pending s \<noteq> StartAwaitReady \<and> pending s \<noteq> StartAwaitId \<and>
      pending s \<noteq> StopAwaitApi \<and> (result s = Some Resolves \<longrightarrow> clean (ctl s)))"

subsection \<open>Sample configurations\<close>

text \<open>
  A multiaddr library that accepts and decodes the three loopback addresses used below
  and rejects every other text, and the options of a controller of a JavaScript daemon
  on a repository of its own.
\<close>

definition sample_lib :: extern where
  "sample_lib =
     \<lparr>tmpDir = (\<lambda>t. ''/tmp/'' @ t), defaultRepo = (\<lambda>t. ''/home/user/.'' @ t),
      multiaddr_accepts = (\<lambda>a. a = ''/ip4/127.0.0.1/tcp/5001'' \<or> a = ''/ip4/127.0.0.1/tcp/8080''
                                \<or> a = ''/ip4/127.0.0.1/tcp/50''),
      nodeAddress = (\<lambda>a. if a = ''/ip4/127.0.0.1/tcp/5001'' then Some (''127.0.0.1'', 5001)
                          else if a = ''/ip4/127.0.0.1/tcp/8080'' then Some (''127.0.0.1'', 8080)
                          else if a = ''/ip4/127.0.0.1/tcp/50'' then Some (''127.0.0.1'', 50)
                          else None)\<rparr>"

definition sample_options :: controller_options where
  "sample_options =
     \<lparr>repo = Some ''/tmp/repo'', ipfsBin = Some ''/usr/local/bin/jsipfs'',
      env_overrides = Map.empty, opt_disposable = False, type = ''js'',
      forceKill = None, forceKillTimeout = 5000\<rparr>"

definition sample_world :: init_world where
  "sample_world =
     \<lparr>repo_exists = False,
      init_run = Inr \<lparr>stdout = ''initializing'', stderr = []\<rparr>,
      config_run = Inr \<lparr>stdout = ''{}'', stderr = []\<rparr>,
      json_parses = (\<lambda>t. t = ''{}''),
      writeFile_ok = True,
      replace_run = Inr \<lparr>stdout = [], stderr = []\<rparr>,
      unlink_ok = True\<rparr>"

text \<open>The two chunks a daemon writes, and a run in which a spawned daemon becomes ready.\<close>

definition api_chunk :: string where
  "api_chunk = ''API server listening on: /ip4/127.0.0.1/tcp/5001'' @ [CHR 0x0A]"

definition ready_chunk :: string where
  "ready_chunk = ''daemon is running'' @ [CHR 0x0A]"






definition sample_started :: "controller_options \<Rightarrow> sys" where
  "sample_started options =
     run sample_lib (boot sample_lib options)
       [CallStart None 42, Stdout api_chunk, Stdout ready_chunk, IdSettled (Inr ''QmPeer'')]"

definition command_failed :: child_error where
  "command_failed = \<lparr>stdout = ''out'', stderr = ''err'', message = ''Command failed''\<rparr>"

definition default_stop :: stop_options where
  "default_stop = \<lparr>timeout = None, arg_forceKill = None, arg_forceKillTimeout = None\<rparr>"

definition no_force_stop :: stop_options where
  "no_force_stop = \<lparr>timeout = None, arg_forceKill = Some False, arg_forceKillTimeout = Some 100\<rparr>"

definition sample_disposable :: sys where
  "sample_disposable =
     run sample_lib (boot sample_lib (sample_options\<lparr>opt_disposable := True\<rparr>))
       [CallInit sample_world, CallStart None 42, Stdout api_chunk, Stdout ready_chunk,
        IdSettled (Inr ''QmPeer'')]"

definition short_stop :: stop_options where
  "short_stop = \<lparr>timeout = Some 200, arg_forceKill = None, arg_forceKillTimeout = None\<rparr>"

section \<open>Properties\<close>

subsection \<open>Basic facts\<close>

lemma run_Nil: "run lib s [] = s"
  by (simp add: run_def)

lemma run_Cons: "run lib s (a # as) = run lib (deliver lib s a) as"
  by (simp add: run_def)

lemma run_append: "run lib s (as @ bs) = run lib (run lib s as) bs"
  by (simp add: run_def)

lemma boot_fields [simp]:
  "pending (boot lib options) = Idle" "uncaught (boot lib options) = None"
  "trace (boot lib options) = []" "ctl (boot lib options) = Daemon lib options"
  "readyHandler_on (boot lib options) = False" "alive (boot lib options) = False"
  "killTimeout (boot lib options) = None" "removals (boot lib options) = 0"
  "result (boot lib options) = None" "output_text (boot lib options) = []"
  by (simp_all add: boot_def)

lemma Daemon_fields [simp]:
  "exec (Daemon lib options) = ipfsBin options" "opts (Daemon lib options) = options"
  "disposable (Daemon lib options) = opt_disposable options"
  "subprocess (Daemon lib options) = None" "clean (Daemon lib options)"
  "\<not> started (Daemon lib options)" "\<not> initialized (Daemon lib options)"
  "api (Daemon lib options) = None" "apiAddr (Daemon lib options) = None"
  "gatewayAddr (Daemon lib options) = None" "\<not> subprocess_stop (Daemon lib options)"
  by (simp_all add: Daemon_def Let_def)

lemma start_resume_frame [simp]:
  "ctl (start_resume s) = (ctl s)\<lparr>started := True\<rparr>"
  "output_text (start_resume s) = output_text s"
  "readyHandler_on (start_resume s) = readyHandler_on s"
  "uncaught (start_resume s) = uncaught s"
  "alive (start_resume s) = alive s"
  "killTimeout (start_resume s) = killTimeout s"
  "removals (start_resume s) = removals s"
  by (simp_all add: start_resume_def Let_def split: option.splits)

text \<open>The patterns on the sample chunks.\<close>

lemma trim_api_chunk: "trim api_chunk = ''API server listening on: /ip4/127.0.0.1/tcp/5001''"
  by (simp add: trim_def api_chunk_def js_space_def)

lemma api_match_1: "apiMatch api_chunk = Some ''/ip4/127.0.0.1/tcp/5001''"
  by (simp add: apiMatch_def trim_api_chunk listening_on_def line_terminator_def)

lemma api_match_2: "apiMatch (api_chunk @ ready_chunk) = Some ''/ip4/127.0.0.1/tcp/5001''"
  by (simp add: apiMatch_def trim_def api_chunk_def ready_chunk_def js_space_def
      listening_on_def line_terminator_def)

lemma gw_match_1: "gwMatch api_chunk = None"
  by (simp add: gwMatch_def trim_api_chunk listening_on_def line_terminator_def)

lemma gw_match_2: "gwMatch (api_chunk @ ready_chunk) = None"
  by (simp add: gwMatch_def trim_def api_chunk_def ready_chunk_def js_space_def
      listening_on_def line_terminator_def)

lemma ready_1: "\<not> ready_match api_chunk"
  by (simp add: ready_match_def api_chunk_def)

lemma ready_2: "ready_match (api_chunk @ ready_chunk)"
  by (simp add: ready_match_def api_chunk_def ready_chunk_def)

lemmas sample_matches = api_match_1 api_match_2 gw_match_1 gw_match_2 ready_1 ready_2







lemma sample_lib_decodes:
  "multiaddr_accepts sample_lib ''/ip4/127.0.0.1/tcp/5001''"
  "nodeAddress sample_lib ''/ip4/127.0.0.1/tcp/5001'' = Some (''127.0.0.1'', 5001)"
  by (simp_all add: sample_lib_def)

subsection \<open>init\<close>

lemma translateError_message:
  "message (translateError e) =
     stdout e @ separator @ stderr e @ separator @ message e @ '' '' @ [CHR 0x0A, CHR 0x0A]"
  by (simp add: translateError_def)

lemma init_swallows_failure:
  "\<not> repo_exists w \<Longrightarrow> init_run w = Inl e \<Longrightarrow> type (opts d) \<noteq> ''go'' \<Longrightarrow>
   init d w = (d\<lparr>initialized := True, clean := False\<rparr>, [Spawn CmdInit], Resolves)"
  by (simp add: init_def catch_def execa_def)

lemma init_never_rejects_with_child_error:
  "snd (snd (init d w)) \<noteq> Rejects (ChildError e)"
  by (auto simp: init_def getConfig_def replaceConfig_def catch_def execa_def Let_def
      split: sum.splits prod.splits option.splits promise.splits if_splits)

text \<open>
  C1, what the code does where the claim expects a rejection. The handler given to
  \<^verbatim>\<open>.catch\<close> returns the translated error instead of throwing it, so the awaited promise
  is fulfilled with the error object. For a JavaScript daemon on a path without a
  repository, whose \<^verbatim>\<open>init\<close> child process fails with output \<^verbatim>\<open>out\<close>, error output
  \<^verbatim>\<open>err\<close> and description \<^verbatim>\<open>Command failed\<close>, \<^verbatim>\<open>init()\<close> resolves and marks the controller
  initialized; no composed error reaches the caller.
\<close>

theorem init_resolves_on_failed_invocation:
  "init (Daemon sample_lib sample_options) (sample_world\<lparr>init_run := Inl command_failed\<rparr>) =
     ((Daemon sample_lib sample_options)\<lparr>initialized := True, clean := False\<rparr>,
      [Spawn CmdInit], Resolves)"
  by (simp add: init_def catch_def execa_def sample_world_def Daemon_def sample_options_def
      Let_def)

text \<open>
  C6: if the repository path already holds a repository, \<^verbatim>\<open>init()\<close> sets
  \<^verbatim>\<open>initialized = true\<close> and \<^verbatim>\<open>clean = false\<close>, spawns no child process (the trace is
  unchanged) and changes nothing else. Hence a second call that finds the repository,
  whatever the first call \<open>w0\<close> met, leaves \<^verbatim>\<open>initialized = true\<close>, \<^verbatim>\<open>clean = false\<close> and the
  trace as the first call left it, and calling twice on an existing repository is the
  same as calling once.
\<close>

theorem init_short_circuit:
  assumes "repo_exists w"
  shows "init d w = (d\<lparr>initialized := True, clean := False\<rparr>, [], Resolves) \<and>
         call_init w s = s\<lparr>ctl := (ctl s)\<lparr>initialized := True, clean := False\<rparr>,
                           result := Some Resolves\<rparr> \<and>
         trace (call_init w (call_init w0 s)) = trace (call_init w0 s) \<and>
         initialized (ctl (call_init w (call_init w0 s))) \<and>
         \<not> clean (ctl (call_init w (call_init w0 s))) \<and>
         call_init w (call_init w s) = call_init w s"
proof -
  have one: "init d' w = (d'\<lparr>initialized := True, clean := False\<rparr>, [], Resolves)" for d'
    using assms by (simp add: init_def)
  have call: "call_init w s' = s'\<lparr>ctl := (ctl s')\<lparr>initialized := True, clean := False\<rparr>,
                                  result := Some Resolves\<rparr>" for s'
    by (simp add: call_init_def one)
  show ?thesis
    by (simp add: one call)
qed

theorem init_short_circuit_witness:
  "repo_exists (sample_world\<lparr>repo_exists := True\<rparr>) \<and>
   init (Daemon sample_lib sample_options) (sample_world\<lparr>repo_exists := True\<rparr>) =
     ((Daemon sample_lib sample_options)\<lparr>initialized := True, clean := False\<rparr>, [], Resolves) \<and>
   trace (call_init (sample_world\<lparr>repo_exists := True\<rparr>)
            (call_init sample_world (boot sample_lib sample_options))) = [Spawn CmdInit]"
  using init_short_circuit [of "sample_world\<lparr>repo_exists := True\<rparr>"
      "Daemon sample_lib sample_options" "boot sample_lib sample_options" sample_world]
  by (simp add: sample_world_def call_init_def init_def catch_def execa_def boot_def
      Daemon_def sample_options_def Let_def)

subsection \<open>start without an executable\<close>

text \<open>
  C8: when \<^verbatim>\<open>checkForRunningApi\<close> finds no running daemon and no executable is configured,
  \<^verbatim>\<open>start()\<close> rejects with the error \<^verbatim>\<open>No executable specified\<close> before it reaches any
  suspension point: nothing is spawned (the trace is unchanged), no process handle is
  stored and nothing else of the state changes. The error is not the one of \<^verbatim>\<open>pid()\<close>.
\<close>

theorem start_without_executable:
  assumes "\<not> truthy running" and "\<not> truthy (exec (ctl s))"
  shows "start lib running new_pid s =
           s\<lparr>result := Some (Rejects (Error ''No executable specified''))\<rparr> \<and>
         trace (start lib running new_pid s) = trace s \<and>
         pending (start lib running new_pid s) = pending s \<and>
         subprocess (ctl (start lib running new_pid s)) = subprocess (ctl s) \<and>
         pid d \<noteq> Inl (Error ''No executable specified'')"
  using assms by (simp add: start_def pid_def split: option.splits)

theorem start_without_executable_witness:
  "\<not> truthy None \<and> \<not> truthy (exec (ctl (boot sample_lib (sample_options\<lparr>ipfsBin := None\<rparr>)))) \<and>
   result (start sample_lib None 7 (boot sample_lib (sample_options\<lparr>ipfsBin := None\<rparr>))) =
     Some (Rejects (Error ''No executable specified'')) \<and>
   trace (start sample_lib None 7 (boot sample_lib (sample_options\<lparr>ipfsBin := None\<rparr>))) = []"
  using start_without_executable [of None "boot sample_lib (sample_options\<lparr>ipfsBin := None\<rparr>)"
      sample_lib 7]
  by (simp add: truthy_def boot_def Daemon_def sample_options_def Let_def)

subsection \<open>The ready handler\<close>


















subsection \<open>A daemon that announces its API address and becomes ready\<close>

lemma two_chunk_start:
  assumes "pending s = Idle" "uncaught s = None" "\<not> truthy running" "truthy (exec (ctl s))"
    "multiaddr_accepts lib ''/ip4/127.0.0.1/tcp/5001''"
    "nodeAddress lib ''/ip4/127.0.0.1/tcp/5001'' = Some (h, p)"
  shows "run lib s [CallStart running n, Stdout api_chunk, Stdout ready_chunk, IdSettled (Inr i)] =
    s\<lparr>ctl := (ctl s)\<lparr>subprocess := Some \<lparr>proc_pid = n\<rparr>, subprocess_stop := True,
           apiAddr := Some (Multiaddr ''/ip4/127.0.0.1/tcp/5001''),
           api := Some \<lparr>address = ''/ip4/127.0.0.1/tcp/5001'', apiHost = Some h,
                         apiPort = Some p, gatewayHost = None, gatewayPort = None,
                         peerId = Some i\<rparr>,
           started := True\<rparr>,
       output_text := api_chunk @ ready_chunk, readyHandler_on := False, alive := True,
       pending := Idle, result := Some Resolves, trace := trace s @ [Spawn CmdDaemon, ApiId]\<rparr>"
  using assms
  by (simp add: run_def deliver_def start_def on_stdout_def readyHandler_def sample_matches
      setApi_def ipfsHttpModule_def start_resume_def on_id_def Let_def)

lemma two_chunk_ready:
  assumes "pending s = Idle" "uncaught s = None" "\<not> truthy running" "truthy (exec (ctl s))"
    "multiaddr_accepts lib ''/ip4/127.0.0.1/tcp/5001''"
    "nodeAddress lib ''/ip4/127.0.0.1/tcp/5001'' = Some (h, p)"
  shows "run lib s [CallStart running n, Stdout api_chunk, Stdout ready_chunk] =
    s\<lparr>ctl := (ctl s)\<lparr>subprocess := Some \<lparr>proc_pid = n\<rparr>, subprocess_stop := True,
           apiAddr := Some (Multiaddr ''/ip4/127.0.0.1/tcp/5001''),
           api := Some \<lparr>address = ''/ip4/127.0.0.1/tcp/5001'', apiHost = Some h,
                         apiPort = Some p, gatewayHost = None, gatewayPort = None,
                         peerId = None\<rparr>,
           started := True\<rparr>,
       output_text := api_chunk @ ready_chunk, readyHandler_on := False, alive := True,
       pending := StartAwaitId, result := None, trace := trace s @ [Spawn CmdDaemon, ApiId]\<rparr>"
  using assms
  by (simp add: run_def deliver_def start_def on_stdout_def readyHandler_def sample_matches
      setApi_def ipfsHttpModule_def start_resume_def on_id_def Let_def)

lemma sample_started_eq:
  assumes "truthy (ipfsBin options)"
  shows "sample_started options =
    (boot sample_lib options)\<lparr>ctl := (Daemon sample_lib options)\<lparr>
           subprocess := Some \<lparr>proc_pid = 42\<rparr>, subprocess_stop := True,
           apiAddr := Some (Multiaddr ''/ip4/127.0.0.1/tcp/5001''),
           api := Some \<lparr>address = ''/ip4/127.0.0.1/tcp/5001'', apiHost = Some ''127.0.0.1'',
                         apiPort = Some 5001, gatewayHost = None, gatewayPort = None,
                         peerId = Some ''QmPeer''\<rparr>,
           started := True\<rparr>,
       output_text := api_chunk @ ready_chunk, readyHandler_on := False, alive := True,
       pending := Idle, result := Some Resolves, trace := [Spawn CmdDaemon, ApiId]\<rparr>"
  unfolding sample_started_def
  using two_chunk_start[of "boot sample_lib options" None sample_lib "''127.0.0.1''" 5001 42
      "''QmPeer''"] assms
  by (simp add: sample_lib_decodes truthy_def)

text \<open>
  C7: a controller at rest with an executable and no running daemon to attach to calls
  \<^verbatim>\<open>start()\<close>; the child writes the chunk announcing \<^verbatim>\<open>/ip4/127.0.0.1/tcp/5001\<close> and then
  the chunk \<^verbatim>\<open>daemon is running\<close>; the multiaddr library decodes the announced text to host
  127.0.0.1 and port 5001. Then \<^verbatim>\<open>start()\<close> is waiting for \<^verbatim>\<open>api.id()\<close>, and resolves when
  that call does; \<^verbatim>\<open>started\<close> is true, \<^verbatim>\<open>apiAddr\<close> is the multiaddr of the text that the API
  pattern matched in the output, and the client is bound to that text and carries the
  host and the port decoded from it.
\<close>

theorem start_on_two_chunks:
  assumes "pending s = Idle" and "uncaught s = None"
    and "\<not> truthy running" and "truthy (exec (ctl s))"
    and "multiaddr_accepts lib ''/ip4/127.0.0.1/tcp/5001''"
    and "nodeAddress lib ''/ip4/127.0.0.1/tcp/5001'' = Some (''127.0.0.1'', 5001)"
  shows "(let s3 = run lib s [CallStart running n, Stdout api_chunk, Stdout ready_chunk];
              s4 = deliver lib s3 (IdSettled (Inr i))
          in pending s3 = StartAwaitId \<and> result s3 = None \<and>
             pending s4 = Idle \<and> result s4 = Some Resolves \<and> started (ctl s4) \<and>
             apiMatch (api_chunk @ ready_chunk) = Some ''/ip4/127.0.0.1/tcp/5001'' \<and>
             apiAddr (ctl s4) = Some (Multiaddr ''/ip4/127.0.0.1/tcp/5001'') \<and>
             api (ctl s4) = Some \<lparr>address = ''/ip4/127.0.0.1/tcp/5001'',
                                   apiHost = Some ''127.0.0.1'', apiPort = Some 5001,
                                   gatewayHost = None, gatewayPort = None, peerId = Some i\<rparr> \<and>
             trace s4 = trace s @ [Spawn CmdDaemon, ApiId])"
proof -
  have r: "deliver lib (run lib s [CallStart running n, Stdout api_chunk, Stdout ready_chunk])
             (IdSettled (Inr i)) =
           run lib s [CallStart running n, Stdout api_chunk, Stdout ready_chunk,
                      IdSettled (Inr i)]"
    by (simp add: run_def)
  show ?thesis
    unfolding Let_def r
    by (simp add: two_chunk_start[OF assms] two_chunk_ready[OF assms] api_match_2)
qed

theorem start_on_two_chunks_witness:
  "pending (boot sample_lib sample_options) = Idle \<and>
   truthy (exec (ctl (boot sample_lib sample_options))) \<and>
   nodeAddress sample_lib ''/ip4/127.0.0.1/tcp/5001'' = Some (''127.0.0.1'', 5001) \<and>
   result (sample_started sample_options) = Some Resolves \<and>
   started (ctl (sample_started sample_options)) \<and>
   apiAddr (ctl (sample_started sample_options)) = Some (Multiaddr ''/ip4/127.0.0.1/tcp/5001'')"
  using start_on_two_chunks [of "boot sample_lib sample_options" None sample_lib 42 "''QmPeer''"]
  by (simp add: sample_started_def run_def sample_lib_decodes truthy_def sample_options_def
      Let_def)

subsection \<open>The process handle\<close>

lemma readyHandler_subprocess: "subprocess (fst (readyHandler lib c st)) = subprocess (fst st)"
  by (simp add: readyHandler_def setApi_def setGateway_def Let_def
      split: option.splits prod.splits if_splits)

lemma setApi_subprocess: "subprocess (fst (setApi lib a d)) = subprocess d"
  by (simp add: setApi_def Let_def split: option.splits prod.splits)

lemma init_subprocess: "subprocess (fst (init d w)) = subprocess d"
  by (simp add: init_def Let_def split: option.splits prod.splits sum.splits promise.splits)

lemma init_no_daemon: "Spawn CmdDaemon \<notin> set (fst (snd (init d w)))"
  by (auto simp add: init_def getConfig_def replaceConfig_def Let_def
      split: option.splits prod.splits sum.splits promise.splits if_splits)

lemma on_stdout_handle: "same_handle s (on_stdout lib c s)"
  using readyHandler_subprocess[of lib c "(ctl s, output_text s)"]
  by (auto simp: same_handle_def on_stdout_def start_resume_def Let_def
      split: prod.splits handler_end.splits bool.splits option.splits)

lemma call_init_handle: "same_handle s (call_init w s)"
  using init_subprocess[of "ctl s" w] init_no_daemon[of "ctl s" w]
  by (auto simp: same_handle_def call_init_def split: prod.splits)

lemma call_cleanup_handle: "same_handle s (call_cleanup ok s)"
  by (auto simp: same_handle_def call_cleanup_def cleanup_def cleanup_begin_def cleanup_end_def)

lemma stop_handle: "same_handle s (stop options s)"
  by (auto simp: same_handle_def stop_def stop_awaited_def stop_exited_def stop_settle_def Let_def
      split: option.splits)

lemma on_exit_handle: "same_handle s (on_exit f s)"
  by (auto simp: same_handle_def on_exit_def exit_observer_def cleanup_begin_def stop_awaited_def
      stop_exited_def stop_settle_def Let_def split: option.splits suspension.splits)

lemma events_handle:
  "same_handle s (on_killTimeout s)" "same_handle s (on_removed ok s)"
  "same_handle s (on_poll s)" "same_handle s (on_id r s)" "same_handle s (on_api_stop r' s)"
  by (auto simp: same_handle_def on_killTimeout_def on_removed_def on_poll_def on_id_def
      on_api_stop_def cleanup_end_def stop_exited_def stop_settle_def Let_def
      split: option.splits suspension.splits sum.splits)

lemma start_handle:
  "subprocess (ctl (start lib r n s)) = subprocess (ctl s) \<and>
     (Spawn CmdDaemon \<in> set (trace (start lib r n s))) = (Spawn CmdDaemon \<in> set (trace s)) \<or>
   subprocess (ctl (start lib r n s)) = Some \<lparr>proc_pid = n\<rparr> \<and>
     Spawn CmdDaemon \<in> set (trace (start lib r n s))"
  using setApi_subprocess[of lib "the r" "ctl s"]
  by (auto simp: start_def start_resume_def Let_def split: option.splits prod.splits)

lemma deliver_handle:
  "\<not> is_start a \<Longrightarrow> same_handle s (deliver lib s a)"
  using on_stdout_handle call_init_handle call_cleanup_handle stop_handle on_exit_handle events_handle
  by (cases a) (auto simp: deliver_def is_start_def same_handle_def)

lemma deliver_handle_inv:
  assumes "(subprocess (ctl s) = None) = (Spawn CmdDaemon \<notin> set (trace s))"
  shows "(subprocess (ctl (deliver lib s a)) = None) = (Spawn CmdDaemon \<notin> set (trace (deliver lib s a)))"
proof (cases "is_start a")
  case False
  from deliver_handle[OF this, of s lib] assms show ?thesis by (simp add: same_handle_def)
next
  case True
  then obtain r n where a: "a = CallStart r n" by (cases a) (auto simp: is_start_def)
  from start_handle[of lib r n s] assms show ?thesis
    by (auto simp: a deliver_def)
qed

lemma run_handle_inv:
  "(subprocess (ctl s) = None) = (Spawn CmdDaemon \<notin> set (trace s)) \<Longrightarrow>
   (subprocess (ctl (run lib s as)) = None) = (Spawn CmdDaemon \<notin> set (trace (run lib s as)))"
  by (induction as arbitrary: s) (simp_all add: run_Nil run_Cons deliver_handle_inv)

lemma deliver_handle_kept:
  "subprocess (ctl s) \<noteq> None \<Longrightarrow> subprocess (ctl (deliver lib s a)) \<noteq> None"
proof (cases "is_start a")
  case False
  assume "subprocess (ctl s) \<noteq> None"
  with deliver_handle[OF False, of s lib] show ?thesis by (simp add: same_handle_def)
next
  case True
  assume h: "subprocess (ctl s) \<noteq> None"
  from True obtain r n where a: "a = CallStart r n" by (cases a) (auto simp: is_start_def)
  from start_handle[of lib r n s] h show ?thesis
    by (auto simp: a deliver_def)
qed

lemma run_handle_kept:
  "subprocess (ctl s) \<noteq> None \<Longrightarrow> subprocess (ctl (run lib s as)) \<noteq> None"
proof (induction as arbitrary: s)
  case Nil
  then show ?case by (simp add: run_Nil)
next
  case (Cons a as)
  have "subprocess (ctl (deliver lib s a)) \<noteq> None"
    using Cons.prems by (rule deliver_handle_kept)
  then have "subprocess (ctl (run lib (deliver lib s a) as)) \<noteq> None"
    by (rule Cons.IH)
  then show ?case by (simp add: run_Cons)
qed

lemma run_handle_same:
  "\<forall>a\<in>set as. \<not> is_start a \<Longrightarrow> subprocess (ctl (run lib s as)) = subprocess (ctl s)"
proof (induction as arbitrary: s)
  case Nil
  then show ?case by (simp add: run_Nil)
next
  case (Cons a as)
  then have "subprocess (ctl (deliver lib s a)) = subprocess (ctl s)"
    using deliver_handle[of a s lib] by (simp add: same_handle_def)
  with Cons show ?case by (simp add: run_Cons)
qed

text \<open>
  C9: in every state that a controller reaches from its construction, \<^verbatim>\<open>pid()\<close> throws
  \<^verbatim>\<open>Daemon process is not running.\<close> exactly when \<^verbatim>\<open>start\<close> has never spawned a daemon,
  which is exactly when the process handle is null. No method and no event resets the
  handle: from a state with a handle, whatever happens next (the child's exit, \<^verbatim>\<open>stop\<close>)
  \<^verbatim>\<open>pid()\<close> still resolves, and as long as \<^verbatim>\<open>start\<close> is not called again it resolves with
  the identifier of that process, exited or not.
\<close>

theorem pid_fails_iff_never_spawned:
  "(let s' = run lib (boot lib options) as
    in (pid (ctl s') = Inl (Error ''Daemon process is not running.'')) =
         (Spawn CmdDaemon \<notin> set (trace s')) \<and>
       (subprocess (ctl s') = None) = (Spawn CmdDaemon \<notin> set (trace s'))) \<and>
   (subprocess (ctl s) = Some p \<longrightarrow>
      subprocess (ctl (run lib s bs)) \<noteq> None \<and>
      (\<exists>n. pid (ctl (run lib s bs)) = Inr n) \<and>
      ((\<forall>a\<in>set bs. \<not> is_start a) \<longrightarrow> pid (ctl (run lib s bs)) = Inr (proc_pid p)))"
proof -
  have inv: "(subprocess (ctl (run lib (boot lib options) as)) = None) =
             (Spawn CmdDaemon \<notin> set (trace (run lib (boot lib options) as)))"
    by (rule run_handle_inv) simp
  have pid_iff: "(pid d = Inl (Error ''Daemon process is not running.'')) = (subprocess d = None)" for d
    by (simp add: pid_def split: option.splits)
  have kept: "subprocess (ctl s) = Some p \<Longrightarrow> subprocess (ctl (run lib s bs)) \<noteq> None"
    using run_handle_kept[of s lib bs] by simp
  have resolves: "subprocess (ctl s) = Some p \<Longrightarrow> \<exists>n. pid (ctl (run lib s bs)) = Inr n"
    using kept by (auto simp: pid_def split: option.splits)
  have same: "subprocess (ctl s) = Some p \<Longrightarrow> \<forall>a\<in>set bs. \<not> is_start a \<Longrightarrow>
      pid (ctl (run lib s bs)) = Inr (proc_pid p)"
    using run_handle_same[of bs lib s] by (simp add: pid_def)
  have first: "(pid (ctl (run lib (boot lib options) as)) =
                  Inl (Error ''Daemon process is not running.'')) =
               (Spawn CmdDaemon \<notin> set (trace (run lib (boot lib options) as)))"
    using inv pid_iff[of "ctl (run lib (boot lib options) as)"] by simp
  show ?thesis
    unfolding Let_def using first inv kept resolves same by blast
qed

theorem pid_fails_iff_never_spawned_witness:
  "pid (ctl (boot sample_lib sample_options)) = Inl (Error ''Daemon process is not running.'') \<and>
   subprocess (ctl (sample_started sample_options)) = Some \<lparr>proc_pid = 42\<rparr> \<and>
   \<not> is_start (CallStop default_stop) \<and> \<not> is_start (Exit (Some command_failed)) \<and>
   \<not> alive (run sample_lib (sample_started sample_options)
               [CallStop default_stop, Exit (Some command_failed)]) \<and>
   pid (ctl (run sample_lib (sample_started sample_options)
               [CallStop default_stop, Exit (Some command_failed)])) = Inr 42"
  using pid_fails_iff_never_spawned [where lib = sample_lib and options = sample_options
      and as = "[]" and s = "sample_started sample_options" and p = "\<lparr>proc_pid = 42\<rparr>"
      and bs = "[CallStop default_stop, Exit (Some command_failed)]"]
  by (simp add: sample_started_eq truthy_def sample_options_def is_start_def run_def pid_def
      deliver_def stop_def default_stop_def timeout_of_def on_exit_def exit_observer_def
      stop_awaited_def stop_exited_def stop_settle_def Let_def)


subsection \<open>clean\<close>

lemma readyHandler_clean: "clean (fst (readyHandler lib c st)) = clean (fst st)"
  by (simp add: readyHandler_def setApi_def setGateway_def Let_def
      split: option.splits prod.splits if_splits)

lemma setApi_clean: "clean (fst (setApi lib a d)) = clean d"
  by (simp add: setApi_def Let_def split: option.splits prod.splits)

lemma on_stdout_clean: "clean (ctl s) \<Longrightarrow> stays_clean s (on_stdout lib c s)"
  using readyHandler_clean[of lib c "(ctl s, output_text s)"]
  by (auto simp: stays_clean_def on_stdout_def start_resume_def Let_def
      split: prod.splits handler_end.splits bool.splits option.splits)

lemma start_clean: "clean (ctl s) \<Longrightarrow> stays_clean s (start lib r n s)"
  using setApi_clean[of lib "the r" "ctl s"]
  by (auto simp: stays_clean_def start_def start_resume_def Let_def
      split: option.splits prod.splits)

lemma call_cleanup_clean: "clean (ctl s) \<Longrightarrow> stays_clean s (call_cleanup ok s)"
  by (auto simp: stays_clean_def call_cleanup_def cleanup_def cleanup_begin_def cleanup_end_def)

lemma stop_clean: "clean (ctl s) \<Longrightarrow> stays_clean s (stop options s)"
  by (auto simp: stays_clean_def stop_def stop_awaited_def stop_exited_def stop_settle_def Let_def
      split: option.splits)

lemma on_exit_clean: "clean (ctl s) \<Longrightarrow> stays_clean s (on_exit f s)"
  by (auto simp: stays_clean_def on_exit_def exit_observer_def cleanup_begin_def stop_awaited_def
      stop_exited_def stop_settle_def Let_def split: option.splits suspension.splits)

lemma events_clean:
  "clean (ctl s) \<Longrightarrow> stays_clean s (on_killTimeout s)"
  "clean (ctl s) \<Longrightarrow> stays_clean s (on_removed ok s)"
  "clean (ctl s) \<Longrightarrow> stays_clean s (on_poll s)"
  "clean (ctl s) \<Longrightarrow> stays_clean s (on_id r s)"
  "clean (ctl s) \<Longrightarrow> stays_clean s (on_api_stop r' s)"
  by (auto simp: stays_clean_def on_killTimeout_def on_removed_def on_poll_def on_id_def
      on_api_stop_def cleanup_end_def stop_exited_def stop_settle_def Let_def
      split: option.splits suspension.splits sum.splits)

lemma deliver_clean:
  assumes "\<not> is_init a" and "clean (ctl s)"
  shows "stays_clean s (deliver lib s a)"
proof (cases "uncaught s = None")
  case False
  with assms show ?thesis by (simp add: deliver_def stays_clean_def)
next
  case True
  have same: "stays_clean s s"
    using assms by (simp add: stays_clean_def)
  show ?thesis
    using assms True same on_stdout_clean[of s lib] start_clean[of s lib]
      call_cleanup_clean[of s] stop_clean[of s] on_exit_clean[of s] events_clean[of s]
    by (cases a) (simp_all add: deliver_def is_init_def)
qed

lemma run_clean:
  "\<forall>a\<in>set as. \<not> is_init a \<Longrightarrow> clean (ctl s) \<Longrightarrow> stays_clean s (run lib s as)"
proof (induction as arbitrary: s)
  case Nil
  then show ?case by (simp add: run_Nil stays_clean_def)
next
  case (Cons a as)
  have one: "stays_clean s (deliver lib s a)"
    using Cons.prems by (simp add: deliver_clean)
  then have "stays_clean (deliver lib s a) (run lib (deliver lib s a) as)"
    using Cons by (simp add: stays_clean_def)
  with one show ?case
    by (auto simp: run_Cons stays_clean_def)
qed

text \<open>
  C10: a controller is constructed with \<^verbatim>\<open>clean = true\<close>; no method call other than
  \<^verbatim>\<open>init\<close> (so not \<^verbatim>\<open>start\<close>) and no event makes a clean controller unclean. Therefore,
  after any run without \<^verbatim>\<open>init\<close>, \<^verbatim>\<open>clean\<close> is true, no directory removal has been
  requested, and \<^verbatim>\<open>cleanup()\<close> resolves without any effect and without changing the
  controller.
\<close>

theorem cleanup_noop_without_init:
  "clean (Daemon lib options) \<and>
   (\<not> is_init a \<longrightarrow> clean (ctl s) \<longrightarrow> clean (ctl (deliver lib s a))) \<and>
   ((\<forall>a\<in>set as. \<not> is_init a) \<longrightarrow>
      (let s' = run lib (boot lib options) as
       in clean (ctl s') \<and> (\<forall>q. FsRemove q \<notin> set (trace s')) \<and>
          cleanup (ctl s') ok = (ctl s', [], Resolves) \<and>
          call_cleanup ok s' = s'\<lparr>result := Some Resolves\<rparr>))"
proof -
  have step: "\<not> is_init a \<Longrightarrow> clean (ctl s) \<Longrightarrow> clean (ctl (deliver lib s a))"
    using deliver_clean[of a s lib] by (simp add: stays_clean_def)
  have noop: "clean d \<Longrightarrow> cleanup d ok = (d, [], Resolves)" for d
    by (simp add: cleanup_def cleanup_begin_def)
  have all: "stays_clean (boot lib options) (run lib (boot lib options) as)"
    if "\<forall>a\<in>set as. \<not> is_init a"
    using that by (simp add: run_clean)
  have fin: "clean (ctl s') \<and> (\<forall>q. FsRemove q \<notin> set (trace s')) \<and>
          cleanup (ctl s') ok = (ctl s', [], Resolves) \<and>
          call_cleanup ok s' = s'\<lparr>result := Some Resolves\<rparr>"
    if "stays_clean (boot lib options) s'" for s'
    using that noop[of "ctl s'"] by (simp add: stays_clean_def call_cleanup_def)
  show ?thesis
    unfolding Let_def using step all fin by (simp add: Let_def)
qed

theorem cleanup_noop_without_init_witness:
  "\<not> is_init (CallStart None 42) \<and> \<not> is_init (Stdout api_chunk) \<and>
   \<not> is_init (Stdout ready_chunk) \<and> \<not> is_init (IdSettled (Inr ''QmPeer'')) \<and>
   clean (ctl (sample_started sample_options)) \<and>
   cleanup (ctl (sample_started sample_options)) True =
     (ctl (sample_started sample_options), [], Resolves) \<and>
   trace (call_cleanup True (sample_started sample_options)) = [Spawn CmdDaemon, ApiId]"
  using cleanup_noop_without_init [where lib = sample_lib and options = sample_options
      and as = "[CallStart None 42, Stdout api_chunk, Stdout ready_chunk,
                 IdSettled (Inr ''QmPeer'')]" and ok = True]
  by (simp add: is_init_def sample_started_eq truthy_def sample_options_def
      sample_started_def [symmetric] Let_def)


subsection \<open>started and the API client\<close>

lemma readyHandler_client:
  assumes "readyHandler lib c (d, out) = (d', out', r)"
  shows "(api d \<noteq> None \<longrightarrow> api d' \<noteq> None) \<and>
         (r = Returned True \<longrightarrow> ready_match (out @ c) \<and> (apiMatch (out @ c) \<noteq> None \<longrightarrow> api d' \<noteq> None)) \<and>
         (r \<noteq> Returned True \<longrightarrow> started d' = started d)"
  using assms
  by (auto simp: readyHandler_def setApi_def setGateway_def Let_def
      split: option.splits prod.splits if_splits)

lemma on_stdout_client:
  assumes "client_known s" and "api_known_at_ready s (Stdout c)"
  shows "client_known (on_stdout lib c s)"
proof (cases "readyHandler_on s")
  case False
  with assms show ?thesis by (simp add: on_stdout_def)
next
  case True
  obtain d out r where rh: "readyHandler lib c (ctl s, output_text s) = (d, out, r)"
    by (cases "readyHandler lib c (ctl s, output_text s)") auto
  note facts = readyHandler_client[OF rh]
  show ?thesis
  proof (cases "r = Returned True")
    case yes: True
    with facts assms True have "api d \<noteq> None"
      by (auto simp: api_known_at_ready_def)
    with rh yes True show ?thesis
      by (auto simp: on_stdout_def client_known_def)
  next
    case no: False
    with facts assms have "started d \<longrightarrow> api d \<noteq> None"
      by (auto simp: client_known_def)
    with rh no True show ?thesis
      by (cases r) (auto simp: on_stdout_def client_known_def)
  qed
qed

lemma setApi_client:
  "started (fst (setApi lib a d)) = started d \<and>
   (api d \<noteq> None \<longrightarrow> api (fst (setApi lib a d)) \<noteq> None) \<and>
   (snd (setApi lib a d) = None \<longrightarrow> api (fst (setApi lib a d)) \<noteq> None)"
  by (simp add: setApi_def Let_def split: option.splits prod.splits)

lemma start_client: "client_known s \<Longrightarrow> client_known (start lib r n s)"
  using setApi_client[of lib "the r" "ctl s"]
  by (auto simp: client_known_def start_def Let_def split: option.splits prod.splits)

lemma start_attach:
  assumes "truthy r" and "result (start lib r n s) = None"
  shows "started (ctl (start lib r n s)) \<and> api (ctl (start lib r n s)) \<noteq> None"
  using assms setApi_client[of lib "the r" "ctl s"]
  by (auto simp: start_def start_resume_def Let_def split: option.splits prod.splits)

lemma init_client: "started (fst (init d w)) = started d \<and> api (fst (init d w)) = api d"
  by (simp add: init_def Let_def split: option.splits prod.splits sum.splits promise.splits)

lemma call_init_client: "client_known s \<Longrightarrow> client_known (call_init w s)"
  using init_client[of "ctl s" w]
  by (auto simp: client_known_def call_init_def split: prod.splits)

lemma calls_client:
  "client_known s \<Longrightarrow> client_known (call_cleanup ok s)"
  "client_known s \<Longrightarrow> client_known (stop options s)"
  by (auto simp: client_known_def call_cleanup_def cleanup_def cleanup_begin_def cleanup_end_def
      stop_def stop_awaited_def stop_exited_def stop_settle_def Let_def split: option.splits)

lemma events_client:
  "client_known s \<Longrightarrow> client_known (on_exit f s)"
  "client_known s \<Longrightarrow> client_known (on_killTimeout s)"
  "client_known s \<Longrightarrow> client_known (on_removed ok s)"
  "client_known s \<Longrightarrow> client_known (on_poll s)"
  "client_known s \<Longrightarrow> client_known (on_id r s)"
  "client_known s \<Longrightarrow> client_known (on_api_stop r' s)"
  by (auto simp: client_known_def on_exit_def exit_observer_def cleanup_begin_def
      on_killTimeout_def on_removed_def on_poll_def on_id_def
      on_api_stop_def cleanup_end_def stop_awaited_def stop_exited_def stop_settle_def Let_def
      split: option.splits suspension.splits sum.splits)

lemma deliver_client:
  assumes "client_known s" and "api_known_at_ready s a"
  shows "client_known (deliver lib s a)"
proof (cases "uncaught s = None")
  case False
  with assms show ?thesis by (simp add: deliver_def)
next
  case True
  show ?thesis
    using assms True on_stdout_client[of s _ lib] start_client[of s lib] call_init_client[of s]
      calls_client[of s] events_client[of s]
    by (cases a) (simp_all add: deliver_def)
qed

lemma run_client:
  "client_known s \<Longrightarrow> announced lib s as \<Longrightarrow> client_known (run lib s as)"
  by (induction as arbitrary: s) (simp_all add: run_Nil run_Cons deliver_client)

text \<open>
  C3 as amended: in every state that a controller reaches from its construction,
  \<^verbatim>\<open>started\<close> implies a client, provided that the spawned daemon announces its API address
  no later than its readiness (\<open>announced\<close>). On the attach path \<^verbatim>\<open>start\<close> always has the
  client when it sets \<^verbatim>\<open>started\<close>, since \<^verbatim>\<open>_setApi\<close> has returned. The ready handler and the
  assignment after \<^verbatim>\<open>await ready\<close> set \<^verbatim>\<open>started\<close> without looking at the client.
\<close>

theorem started_implies_client_when_announced:
  "(announced lib (boot lib options) as \<longrightarrow>
      started (ctl (run lib (boot lib options) as)) \<longrightarrow>
      api (ctl (run lib (boot lib options) as)) \<noteq> None) \<and>
   (truthy running \<longrightarrow> result (start lib running n s) = None \<longrightarrow>
      started (ctl (start lib running n s)) \<and> api (ctl (start lib running n s)) \<noteq> None)"
proof -
  have "client_known (boot lib options)"
    by (simp add: client_known_def)
  then have "announced lib (boot lib options) as \<Longrightarrow> client_known (run lib (boot lib options) as)"
    by (rule run_client)
  then show ?thesis
    using start_attach[of running lib n s] by (auto simp: client_known_def)
qed

theorem started_implies_client_when_announced_witness:
  "announced sample_lib (boot sample_lib sample_options)
     [CallStart None 42, Stdout api_chunk, Stdout ready_chunk] \<and>
   started (ctl (run sample_lib (boot sample_lib sample_options)
                   [CallStart None 42, Stdout api_chunk, Stdout ready_chunk])) \<and>
   api (ctl (run sample_lib (boot sample_lib sample_options)
               [CallStart None 42, Stdout api_chunk, Stdout ready_chunk])) \<noteq> None \<and>
   truthy (Some ''/ip4/127.0.0.1/tcp/5001'') \<and>
   result (start sample_lib (Some ''/ip4/127.0.0.1/tcp/5001'') 0
             (boot sample_lib sample_options)) = None \<and>
   started (ctl (start sample_lib (Some ''/ip4/127.0.0.1/tcp/5001'') 0
                   (boot sample_lib sample_options)))"
  using started_implies_client_when_announced [where lib = sample_lib
      and options = sample_options
      and as = "[CallStart None 42, Stdout api_chunk, Stdout ready_chunk]"
      and running = "Some ''/ip4/127.0.0.1/tcp/5001''" and n = 0
      and s = "boot sample_lib sample_options"]
  by (simp add: run_def deliver_def start_def on_stdout_def readyHandler_def sample_matches
      setApi_def ipfsHttpModule_def start_resume_def Let_def sample_lib_decodes truthy_def
      sample_options_def api_known_at_ready_def)

text \<open>
  C3 as stated fails: a spawned daemon that writes \<^verbatim>\<open>daemon is running\<close> without having
  announced an API address leaves \<^verbatim>\<open>started = true\<close> with no client (and \<^verbatim>\<open>start()\<close> rejects
  with the type error of \<^verbatim>\<open>this.api.id()\<close>).
\<close>

theorem started_without_client_counterexample:
  "started (ctl (run sample_lib (boot sample_lib sample_options)
                   [CallStart None 42, Stdout ready_chunk])) \<and>
   api (ctl (run sample_lib (boot sample_lib sample_options)
               [CallStart None 42, Stdout ready_chunk])) = None \<and>
   result (run sample_lib (boot sample_lib sample_options)
             [CallStart None 42, Stdout ready_chunk]) =
     Some (Rejects (TypeError ''Cannot read property id of null''))"
  by (simp add: run_def deliver_def start_def on_stdout_def readyHandler_def 
      start_resume_def Let_def truthy_def sample_options_def apiMatch_def gwMatch_def
      ready_match_def ready_chunk_def trim_def js_space_def)


subsection \<open>stop\<close>

lemma no_new_timer_refl: "no_new_timer s s"
  by (simp add: no_new_timer_def)

lemma no_new_timer_trans: "no_new_timer s s' \<Longrightarrow> no_new_timer s' s'' \<Longrightarrow> no_new_timer s s''"
  by (simp add: no_new_timer_def)

lemma on_stdout_timer: "no_new_timer s (on_stdout lib c s)"
  by (auto simp: no_new_timer_def on_stdout_def start_resume_def Let_def
      split: prod.splits handler_end.splits bool.splits option.splits)

lemma events_timer:
  "no_new_timer s (on_exit f s)"
  "no_new_timer s (on_killTimeout s)"
  "no_new_timer s (on_removed ok s)"
  "no_new_timer s (on_poll s)"
  "no_new_timer s (on_id r s)"
  "no_new_timer s (on_api_stop r' s)"
  by (auto simp: no_new_timer_def on_exit_def exit_observer_def cleanup_begin_def
      on_killTimeout_def on_removed_def on_poll_def on_id_def
      on_api_stop_def cleanup_end_def stop_awaited_def stop_exited_def stop_settle_def Let_def
      split: option.splits suspension.splits sum.splits)

lemma deliver_timer: "\<not> is_call a \<Longrightarrow> no_new_timer s (deliver lib s a)"
  using on_stdout_timer[of s lib] events_timer[of s] no_new_timer_refl[of s]
  by (cases a) (simp_all add: deliver_def is_call_def)

lemma run_timer: "\<forall>a\<in>set as. \<not> is_call a \<Longrightarrow> no_new_timer s (run lib s as)"
proof (induction as arbitrary: s)
  case Nil
  then show ?case by (simp add: run_Nil no_new_timer_refl)
next
  case (Cons a as)
  have "no_new_timer s (deliver lib s a)"
    using Cons.prems by (simp add: deliver_timer)
  moreover have "no_new_timer (deliver lib s a) (run lib (deliver lib s a) as)"
    using Cons by simp
  ultimately show ?case
    unfolding run_Cons by (rule no_new_timer_trans)
qed

text \<open>While a disposable instance stops, it resolves only once the repository is clean.\<close>

lemma readyHandler_disposing:
  "clean (fst (readyHandler lib c st)) = clean (fst st) \<and>
   disposable (fst (readyHandler lib c st)) = disposable (fst st)"
  by (simp add: readyHandler_def setApi_def setGateway_def Let_def
      split: option.splits prod.splits if_splits)

lemma on_stdout_disposing: "disposing s \<Longrightarrow> disposing (on_stdout lib c s)"
  using readyHandler_disposing[of lib c "(ctl s, output_text s)"]
  by (auto simp: disposing_def on_stdout_def
      split: prod.splits handler_end.splits bool.splits option.splits)

lemma events_disposing:
  "disposing s \<Longrightarrow> disposing (on_exit f s)"
  "disposing s \<Longrightarrow> disposing (on_killTimeout s)"
  "disposing s \<Longrightarrow> disposing (on_removed ok s)"
  "disposing s \<Longrightarrow> disposing (on_poll s)"
  "disposing s \<Longrightarrow> disposing (on_id r s)"
  "disposing s \<Longrightarrow> disposing (on_api_stop r' s)"
  by (auto simp: disposing_def on_exit_def exit_observer_def cleanup_begin_def
      on_killTimeout_def on_removed_def on_poll_def on_id_def
      on_api_stop_def cleanup_end_def stop_awaited_def stop_exited_def stop_settle_def Let_def
      split: option.splits suspension.splits sum.splits)

lemma deliver_disposing: "\<not> is_call a \<Longrightarrow> disposing s \<Longrightarrow> disposing (deliver lib s a)"
  using on_stdout_disposing[of s lib] events_disposing[of s]
  by (cases a) (simp_all add: deliver_def is_call_def)

lemma run_disposing: "\<forall>a\<in>set as. \<not> is_call a \<Longrightarrow> disposing s \<Longrightarrow> disposing (run lib s as)"
  by (induction as arbitrary: s) (simp_all add: run_Nil run_Cons deliver_disposing)

lemma stop_disposing:
  assumes "started (ctl s)" and "subprocess (ctl s) = Some p" and "disposable (ctl s)"
  shows "disposing (stop options s) \<and> trace (stop options s) = trace s @ [Kill SIGKILL] \<and>
         (killTimeout s = None \<longrightarrow> killTimeout (stop options s) = None)"
  using assms
  by (auto simp: disposing_def stop_def stop_awaited_def stop_exited_def stop_settle_def Let_def)

lemma idle_polls: "pending s = Idle \<Longrightarrow> run lib s (replicate k PollTick) = s"
  by (induction k) (simp_all add: run_Nil run_Cons deliver_def on_poll_def)

lemma poll_clean_times_out:
  "pending s = StopPollClean t w \<Longrightarrow> w < t \<Longrightarrow> t \<le> w + 100 * k \<Longrightarrow> \<not> clean (ctl s) \<Longrightarrow>
   uncaught s = None \<Longrightarrow>
   result (run lib s (replicate k PollTick)) = Some (Rejects TimeoutError) \<and>
   pending (run lib s (replicate k PollTick)) = Idle"
proof (induction k arbitrary: s w)
  case 0
  then show ?case by simp
next
  case (Suc k)
  show ?case
  proof (cases "t \<le> w + 100")
    case True
    let ?s1 = "deliver lib s PollTick"
    have s1: "?s1 = s\<lparr>pending := Idle, result := Some (Rejects TimeoutError)\<rparr>"
      using Suc.prems True by (simp add: deliver_def on_poll_def)
    then have "run lib ?s1 (replicate k PollTick) = ?s1"
      using idle_polls[of ?s1 lib k] by simp
    with s1 show ?thesis by (simp add: run_Cons)
  next
    case False
    let ?s1 = "deliver lib s PollTick"
    have s1: "?s1 = s\<lparr>pending := StopPollClean t (w + 100)\<rparr>"
      using Suc.prems False by (simp add: deliver_def on_poll_def)
    have "result (run lib ?s1 (replicate k PollTick)) = Some (Rejects TimeoutError) \<and>
          pending (run lib ?s1 (replicate k PollTick)) = Idle"
    proof (rule Suc.IH)
      show "pending ?s1 = StopPollClean t (w + 100)" by (simp add: s1)
      show "w + 100 < t" using False by simp
      show "t \<le> w + 100 + 100 * k" using Suc.prems by simp
      show "\<not> clean (ctl ?s1)" using Suc.prems by (simp add: s1)
      show "uncaught ?s1 = None" using Suc.prems by (simp add: s1)
    qed
    then show ?thesis by (simp add: run_Cons)
  qed
qed

lemma timeout_of_pos: "0 < timeout_of options"
  by (simp add: timeout_of_def split: option.splits)

lemma stop_disposable_exit:
  assumes "started (ctl s)" and "subprocess (ctl s) = Some p" and "disposable (ctl s)"
    and "alive s" and "subprocess_stop (ctl s)" and "\<not> clean (ctl s)" and "uncaught s = None"
  shows "deliver lib (stop options s) (Exit f) =
           s\<lparr>ctl := (ctl s)\<lparr>started := False, subprocess_stop := False\<rparr>,
              readyHandler_on := False, alive := False, killTimeout := None,
              removals := Suc (removals s), pending := StopPollClean (timeout_of options) 0,
              result := None, trace := trace s @ [Kill SIGKILL, FsRemove (path (ctl s))]\<rparr>"
  using assms
  by (cases f) (simp_all add: deliver_def stop_def on_exit_def exit_observer_def
      cleanup_begin_def stop_awaited_def stop_exited_def Let_def)

lemma sample_disposable_eq:
  "sample_disposable =
    (boot sample_lib (sample_options\<lparr>opt_disposable := True\<rparr>))\<lparr>
       ctl := (Daemon sample_lib (sample_options\<lparr>opt_disposable := True\<rparr>))\<lparr>
           initialized := True, clean := False,
           subprocess := Some \<lparr>proc_pid = 42\<rparr>, subprocess_stop := True,
           apiAddr := Some (Multiaddr ''/ip4/127.0.0.1/tcp/5001''),
           api := Some \<lparr>address = ''/ip4/127.0.0.1/tcp/5001'', apiHost = Some ''127.0.0.1'',
                         apiPort = Some 5001, gatewayHost = None, gatewayPort = None,
                         peerId = Some ''QmPeer''\<rparr>,
           started := True\<rparr>,
       output_text := api_chunk @ ready_chunk, readyHandler_on := False, alive := True,
       pending := Idle, result := Some Resolves,
       trace := [Spawn CmdInit, Spawn CmdDaemon, ApiId]\<rparr>"
proof -
  let ?b = "boot sample_lib (sample_options\<lparr>opt_disposable := True\<rparr>)"
  let ?s1 = "deliver sample_lib ?b (CallInit sample_world)"
  have s1: "?s1 = ?b\<lparr>ctl := (ctl ?b)\<lparr>initialized := True, clean := False\<rparr>,
                      trace := [Spawn CmdInit], result := Some Resolves\<rparr>"
    by (simp add: deliver_def call_init_def init_def catch_def execa_def sample_world_def
        sample_options_def Let_def)
  have bin: "ipfsBin (sample_options\<lparr>opt_disposable := True\<rparr>) = Some ''/usr/local/bin/jsipfs''"
    by (simp add: sample_options_def)
  have "sample_disposable =
          run sample_lib ?s1 [CallStart None 42, Stdout api_chunk, Stdout ready_chunk,
                              IdSettled (Inr ''QmPeer'')]"
    by (simp add: sample_disposable_def run_Cons)
  also have "\<dots> = ?s1\<lparr>ctl := (ctl ?s1)\<lparr>subprocess := Some \<lparr>proc_pid = 42\<rparr>,
           subprocess_stop := True,
           apiAddr := Some (Multiaddr ''/ip4/127.0.0.1/tcp/5001''),
           api := Some \<lparr>address = ''/ip4/127.0.0.1/tcp/5001'', apiHost = Some ''127.0.0.1'',
                         apiPort = Some 5001, gatewayHost = None, gatewayPort = None,
                         peerId = Some ''QmPeer''\<rparr>,
           started := True\<rparr>,
       output_text := api_chunk @ ready_chunk, readyHandler_on := False, alive := True,
       pending := Idle, result := Some Resolves,
       trace := trace ?s1 @ [Spawn CmdDaemon, ApiId]\<rparr>"
    by (rule two_chunk_start) (simp_all add: s1 truthy_def bin sample_lib_decodes)
  finally show ?thesis
    by (simp add: s1)
qed

text \<open>
  C4: \<^verbatim>\<open>stop()\<close> on a started disposable instance with a managed process sends
  \<^verbatim>\<open>SIGKILL\<close> at once and nothing else before it suspends. Whatever events follow, no timer
  is ever armed, and whenever \<^verbatim>\<open>stop()\<close> has resolved, \<^verbatim>\<open>clean\<close> is true. If the child exits
  and the removal of the repository does not complete, \<^verbatim>\<open>stop()\<close> rejects with the timeout
  error of the bounded wait once the polls have used up the timeout.
  (\<^verbatim>\<open>stop()\<close> on an instance that is not started returns at once.)
\<close>

theorem stop_disposable:
  assumes "started (ctl s)" and "subprocess (ctl s) = Some p" and "disposable (ctl s)"
  shows "trace (stop options s) = trace s @ [Kill SIGKILL] \<and>
         ((\<forall>a\<in>set evs. \<not> is_call a) \<longrightarrow>
            (\<forall>n. SetTimeout n \<in> set (trace (run lib (stop options s) evs)) \<longrightarrow>
                   SetTimeout n \<in> set (trace s)) \<and>
            (killTimeout s = None \<longrightarrow> killTimeout (run lib (stop options s) evs) = None) \<and>
            (result (run lib (stop options s) evs) = Some Resolves \<longrightarrow>
               clean (ctl (run lib (stop options s) evs)))) \<and>
         (alive s \<and> subprocess_stop (ctl s) \<and> \<not> clean (ctl s) \<and> uncaught s = None \<and>
          timeout_of options \<le> 100 * k \<longrightarrow>
            result (run lib (stop options s) (Exit f # replicate k PollTick)) =
              Some (Rejects TimeoutError))"
proof -
  note st = stop_disposing[OF assms, of options]
  have timers: "no_new_timer (stop options s) (run lib (stop options s) evs)"
    if "\<forall>a\<in>set evs. \<not> is_call a"
    using that by (rule run_timer)
  have disp: "disposing (run lib (stop options s) evs)" if "\<forall>a\<in>set evs. \<not> is_call a"
    using that st by (simp add: run_disposing)
  have part2: "(\<forall>n. SetTimeout n \<in> set (trace (run lib (stop options s) evs)) \<longrightarrow>
                   SetTimeout n \<in> set (trace s)) \<and>
            (killTimeout s = None \<longrightarrow> killTimeout (run lib (stop options s) evs) = None) \<and>
            (result (run lib (stop options s) evs) = Some Resolves \<longrightarrow>
               clean (ctl (run lib (stop options s) evs)))"
    if "\<forall>a\<in>set evs. \<not> is_call a"
    using timers[OF that] disp[OF that] st
    by (auto simp: no_new_timer_def disposing_def)
  have part3: "result (run lib (stop options s) (Exit f # replicate k PollTick)) =
              Some (Rejects TimeoutError)"
    if h: "alive s" "subprocess_stop (ctl s)" "\<not> clean (ctl s)" "uncaught s = None"
      "timeout_of options \<le> 100 * k"
  proof -
    let ?s2 = "deliver lib (stop options s) (Exit f)"
    note e = stop_disposable_exit[OF assms h(1-4), of lib options f]
    have "result (run lib ?s2 (replicate k PollTick)) = Some (Rejects TimeoutError) \<and>
          pending (run lib ?s2 (replicate k PollTick)) = Idle"
    proof (rule poll_clean_times_out)
      show "pending ?s2 = StopPollClean (timeout_of options) 0" by (simp add: e)
      show "0 < timeout_of options" by (rule timeout_of_pos)
      show "timeout_of options \<le> 0 + 100 * k" using h by simp
      show "\<not> clean (ctl ?s2)" using h by (simp add: e)
      show "uncaught ?s2 = None" using h by (simp add: e)
    qed
    then show ?thesis by (simp add: run_Cons)
  qed
  show ?thesis
    using st part2 part3 by blast
qed

theorem stop_disposable_witness:
  "started (ctl sample_disposable) \<and>
   subprocess (ctl sample_disposable) = Some \<lparr>proc_pid = 42\<rparr> \<and>
   disposable (ctl sample_disposable) \<and> alive sample_disposable \<and>
   subprocess_stop (ctl sample_disposable) \<and> \<not> clean (ctl sample_disposable) \<and>
   uncaught sample_disposable = None \<and> timeout_of short_stop \<le> 100 * 2 \<and>
   \<not> is_call (Exit (Some command_failed)) \<and> \<not> is_call (Removed True) \<and> \<not> is_call PollTick \<and>
   trace (stop short_stop sample_disposable) =
     [Spawn CmdInit, Spawn CmdDaemon, ApiId, Kill SIGKILL] \<and>
   result (run sample_lib (stop short_stop sample_disposable)
             [Exit (Some command_failed), PollTick, PollTick]) = Some (Rejects TimeoutError) \<and>
   result (run sample_lib (stop short_stop sample_disposable)
             [Exit (Some command_failed), Removed True, PollTick]) = Some Resolves \<and>
   clean (ctl (run sample_lib (stop short_stop sample_disposable)
                 [Exit (Some command_failed), Removed True, PollTick]))"
  using stop_disposable [where s = sample_disposable and p = "\<lparr>proc_pid = 42\<rparr>"
      and options = short_stop and lib = sample_lib and k = 2 and f = "Some command_failed"
      and evs = "[Exit (Some command_failed), Removed True, PollTick]"]
  by (simp add: sample_disposable_eq sample_options_def short_stop_def timeout_of_def
      is_call_def stop_def run_def deliver_def on_exit_def exit_observer_def cleanup_begin_def
      cleanup_end_def stop_awaited_def stop_exited_def stop_settle_def on_removed_def
      on_poll_def Let_def numeral_2_eq_2)

lemma stop_ignores_arguments:
  "stop (options\<lparr>arg_forceKill := x, arg_forceKillTimeout := y\<rparr>) s = stop options s"
  by (simp add: stop_def timeout_of_def)

lemma stop_graceful:
  assumes "started (ctl s)" and "subprocess (ctl s) = Some p" and "\<not> disposable (ctl s)"
  shows "(forceKill (opts (ctl s)) = Some False \<longrightarrow>
            trace (stop options s) = trace s @ [Cancel] \<and>
            (killTimeout s = None \<longrightarrow> killTimeout (stop options s) = None)) \<and>
         (forceKill (opts (ctl s)) \<noteq> Some False \<longrightarrow>
            trace (stop options s) =
              trace s @ [SetTimeout (forceKillTimeout (opts (ctl s))), Cancel] \<and>
            (alive s \<or> \<not> subprocess_stop (ctl s) \<longrightarrow>
               killTimeout (stop options s) = Some (forceKillTimeout (opts (ctl s))) \<and>
               ctl (stop options s) = ctl s \<and> uncaught (stop options s) = uncaught s))"
  using assms
  by (auto simp: stop_def stop_awaited_def stop_exited_def stop_settle_def Let_def)

lemma timer_fires:
  "killTimeout s = Some n \<Longrightarrow> uncaught s = None \<Longrightarrow>
   deliver lib s KillTimerElapsed =
     s\<lparr>killTimeout := None,
        trace := trace s @ [ConsoleError (kill_warning (ctl s)), Kill SIGKILL]\<rparr>"
  by (simp add: deliver_def on_killTimeout_def)

lemma exit_while_stopping:
  assumes "alive s" and "uncaught s = None" and "pending s = StopAwaitExit t"
    and "\<not> disposable (ctl s)"
  shows "deliver lib s (Exit f) =
           s\<lparr>ctl := (ctl s)\<lparr>started := False, subprocess_stop := False\<rparr>,
              readyHandler_on := False, alive := False, killTimeout := None, pending := Idle,
              result := Some Resolves\<rparr>"
  using assms
  by (cases f) (simp_all add: deliver_def on_exit_def exit_observer_def
      stop_awaited_def stop_exited_def stop_settle_def Let_def)

lemma stop_awaits_exit:
  assumes "started (ctl s)" and "subprocess (ctl s) = Some p" and "alive s"
    and "subprocess_stop (ctl s)"
  shows "pending (stop options s) = StopAwaitExit (timeout_of options) \<and>
         alive (stop options s) \<and> uncaught (stop options s) = uncaught s \<and>
         ctl (stop options s) = ctl s"
  using assms by (simp add: stop_def Let_def)

lemma stop_graceful_exit:
  assumes "started (ctl s)" and "subprocess (ctl s) = Some p" and "\<not> disposable (ctl s)"
    and "alive s" and "subprocess_stop (ctl s)" and "uncaught s = None"
  shows "killTimeout (deliver lib (stop options s) (Exit f)) = None \<and>
         result (deliver lib (stop options s) (Exit f)) = Some Resolves \<and>
         deliver lib (deliver lib (stop options s) (Exit f)) KillTimerElapsed =
           deliver lib (stop options s) (Exit f)"
proof -
  note a = stop_awaits_exit[OF assms(1,2,4,5), of options]
  have e: "deliver lib (stop options s) (Exit f) =
           (stop options s)\<lparr>ctl := (ctl (stop options s))\<lparr>started := False,
                                                              subprocess_stop := False\<rparr>,
              readyHandler_on := False, alive := False, killTimeout := None, pending := Idle,
              result := Some Resolves\<rparr>"
    using a assms by (intro exit_while_stopping) simp_all
  show ?thesis
    unfolding e using a assms(6) by (simp add: deliver_def on_killTimeout_def)
qed

lemma sample_warning:
  "kill_warning (ctl (sample_started sample_options)) =
     Error ''Timeout stopping js node after 5000ms. Process 42 will be force killed now.''"
  by (simp add: sample_started_eq truthy_def sample_options_def kill_warning_def decimal.simps)

text \<open>
  C2 as amended: \<^verbatim>\<open>stop(options)\<close> on a started non-disposable instance with a managed
  process takes the force-kill settings from the options the controller was constructed
  with, and none from its argument. If \<^verbatim>\<open>opts.forceKill\<close> is false it cancels the child
  and no timer is armed, then or later. Otherwise it arms a timer of
  \<^verbatim>\<open>opts.forceKillTimeout\<close> milliseconds and cancels the child; if the timer elapses while
  the exit has not been observed, the callback reports the warning and sends \<^verbatim>\<open>SIGKILL\<close>;
  if the exit is observed first, the timer is cleared, \<^verbatim>\<open>stop()\<close> resolves and the timer
  does nothing any more.
\<close>

theorem stop_force_kill_of_controller:
  assumes "started (ctl s)" and "subprocess (ctl s) = Some p" and "\<not> disposable (ctl s)"
    and "uncaught s = None"
  shows "stop (options\<lparr>arg_forceKill := x, arg_forceKillTimeout := y\<rparr>) s = stop options s \<and>
         (forceKill (opts (ctl s)) = Some False \<longrightarrow>
            trace (stop options s) = trace s @ [Cancel] \<and>
            ((\<forall>a\<in>set evs. \<not> is_call a) \<longrightarrow>
               (\<forall>n. SetTimeout n \<in> set (trace (run lib (stop options s) evs)) \<longrightarrow>
                      SetTimeout n \<in> set (trace s)) \<and>
               (killTimeout s = None \<longrightarrow> killTimeout (run lib (stop options s) evs) = None))) \<and>
         (forceKill (opts (ctl s)) \<noteq> Some False \<longrightarrow>
            trace (stop options s) =
              trace s @ [SetTimeout (forceKillTimeout (opts (ctl s))), Cancel] \<and>
            (alive s \<or> \<not> subprocess_stop (ctl s) \<longrightarrow>
               killTimeout (stop options s) = Some (forceKillTimeout (opts (ctl s))) \<and>
               deliver lib (stop options s) KillTimerElapsed =
                 (stop options s)\<lparr>killTimeout := None,
                    trace := trace s @ [SetTimeout (forceKillTimeout (opts (ctl s))), Cancel,
                                        ConsoleError (kill_warning (ctl s)), Kill SIGKILL]\<rparr>) \<and>
            (alive s \<and> subprocess_stop (ctl s) \<longrightarrow>
               killTimeout (deliver lib (stop options s) (Exit f)) = None \<and>
               result (deliver lib (stop options s) (Exit f)) = Some Resolves \<and>
               deliver lib (deliver lib (stop options s) (Exit f)) KillTimerElapsed =
                 deliver lib (stop options s) (Exit f)))"
proof -
  note g = stop_graceful[OF assms(1-3), of options]
  have quiet: "(\<forall>n. SetTimeout n \<in> set (trace (run lib (stop options s) evs)) \<longrightarrow>
                      SetTimeout n \<in> set (trace s)) \<and>
               (killTimeout s = None \<longrightarrow> killTimeout (run lib (stop options s) evs) = None)"
    if "forceKill (opts (ctl s)) = Some False" "\<forall>a\<in>set evs. \<not> is_call a"
    using run_timer[OF that(2), of "stop options s" lib] g that(1)
    by (auto simp: no_new_timer_def)
  have fires: "deliver lib (stop options s) KillTimerElapsed =
                 (stop options s)\<lparr>killTimeout := None,
                    trace := trace s @ [SetTimeout (forceKillTimeout (opts (ctl s))), Cancel,
                                        ConsoleError (kill_warning (ctl s)), Kill SIGKILL]\<rparr>"
    if "forceKill (opts (ctl s)) \<noteq> Some False" "alive s \<or> \<not> subprocess_stop (ctl s)"
    using timer_fires[of "stop options s" "forceKillTimeout (opts (ctl s))" lib] g that assms(4)
    by simp
  note e = stop_graceful_exit[OF assms(1-3) _ _ assms(4), of lib options f]
  show ?thesis
  proof (intro conjI)
    show "stop (options\<lparr>arg_forceKill := x, arg_forceKillTimeout := y\<rparr>) s = stop options s"
      by (rule stop_ignores_arguments)
    show "forceKill (opts (ctl s)) = Some False \<longrightarrow>
            trace (stop options s) = trace s @ [Cancel] \<and>
            ((\<forall>a\<in>set evs. \<not> is_call a) \<longrightarrow>
               (\<forall>n. SetTimeout n \<in> set (trace (run lib (stop options s) evs)) \<longrightarrow>
                      SetTimeout n \<in> set (trace s)) \<and>
               (killTimeout s = None \<longrightarrow> killTimeout (run lib (stop options s) evs) = None))"
      using g quiet by blast
    show "forceKill (opts (ctl s)) \<noteq> Some False \<longrightarrow>
            trace (stop options s) =
              trace s @ [SetTimeout (forceKillTimeout (opts (ctl s))), Cancel] \<and>
            (alive s \<or> \<not> subprocess_stop (ctl s) \<longrightarrow>
               killTimeout (stop options s) = Some (forceKillTimeout (opts (ctl s))) \<and>
               deliver lib (stop options s) KillTimerElapsed =
                 (stop options s)\<lparr>killTimeout := None,
                    trace := trace s @ [SetTimeout (forceKillTimeout (opts (ctl s))), Cancel,
                                        ConsoleError (kill_warning (ctl s)), Kill SIGKILL]\<rparr>) \<and>
            (alive s \<and> subprocess_stop (ctl s) \<longrightarrow>
               killTimeout (deliver lib (stop options s) (Exit f)) = None \<and>
               result (deliver lib (stop options s) (Exit f)) = Some Resolves \<and>
               deliver lib (deliver lib (stop options s) (Exit f)) KillTimerElapsed =
                 deliver lib (stop options s) (Exit f))"
      using g fires e by blast
  qed
qed

theorem stop_force_kill_of_controller_witness:
  "started (ctl (sample_started sample_options)) \<and>
   subprocess (ctl (sample_started sample_options)) = Some \<lparr>proc_pid = 42\<rparr> \<and>
   \<not> disposable (ctl (sample_started sample_options)) \<and>
   uncaught (sample_started sample_options) = None \<and>
   forceKill (opts (ctl (sample_started sample_options))) \<noteq> Some False \<and>
   alive (sample_started sample_options) \<and>
   killTimeout (stop default_stop (sample_started sample_options)) = Some 5000 \<and>
   trace (deliver sample_lib (stop default_stop (sample_started sample_options))
            KillTimerElapsed) =
     [Spawn CmdDaemon, ApiId, SetTimeout 5000, Cancel,
      ConsoleError (Error ''Timeout stopping js node after 5000ms. Process 42 will be force killed now.''),
      Kill SIGKILL]"
  using stop_force_kill_of_controller [where s = "sample_started sample_options"
      and p = "\<lparr>proc_pid = 42\<rparr>" and options = default_stop and lib = sample_lib]
  by (simp add: sample_started_eq truthy_def sample_options_def sample_warning [symmetric])

text \<open>
  C2 as stated fails: with \<^verbatim>\<open>forceKill: false\<close> and \<^verbatim>\<open>forceKillTimeout: 100\<close> in the argument
  of \<^verbatim>\<open>stop\<close>, a controller constructed with the default force-kill setting and a timeout
  of 5000 ms still arms a timer, of 5000 ms.
\<close>

theorem stop_force_kill_of_argument_counterexample:
  "arg_forceKill no_force_stop = Some False \<and>
   arg_forceKillTimeout no_force_stop = Some 100 \<and>
   started (ctl (sample_started sample_options)) \<and>
   \<not> disposable (ctl (sample_started sample_options)) \<and>
   subprocess (ctl (sample_started sample_options)) = Some \<lparr>proc_pid = 42\<rparr> \<and>
   killTimeout (stop no_force_stop (sample_started sample_options)) = Some 5000 \<and>
   trace (stop no_force_stop (sample_started sample_options)) =
     [Spawn CmdDaemon, ApiId, SetTimeout 5000, Cancel]"
  by (simp add: sample_started_eq truthy_def sample_options_def no_force_stop_def stop_def
      timeout_of_def Let_def)

end
